theory Spec2Isabelle
  imports Main "HOL-Library.AList"
begin

section \<open>Values\<close>

text \<open>
  The pipeline works on what \<^verbatim>\<open>json.load\<close> returns and on dictionaries built from
  it. A dictionary is an association list in insertion order; \<^const>\<open>map_of\<close> is the
  lookup and \<^const>\<open>AList.update\<close> is \<^verbatim>\<open>d[k] = v\<close> (replace in place, or append a
  new key). Python's \<^verbatim>\<open>None\<close> is \<open>JNull\<close>. Numbers are the integers: the only
  number the code computes with is the carousel's image count.
\<close>

datatype json =
    JNull
  | JBool bool
  | JInt int
  | JStr string
  | JList "json list"
  | JDict "(string \<times> json) list"

type_synonym dict = "(string \<times> json) list"

text \<open>A Python dictionary holds each key once, at every depth.\<close>

fun wf_json :: "json \<Rightarrow> bool" where
  "wf_json (JDict kvs) = (distinct (map fst kvs) \<and> (\<forall>v \<in> snd ` set kvs. wf_json v))"
| "wf_json (JList xs) = (\<forall>x \<in> set xs. wf_json x)"
| "wf_json _ = True"

text \<open>Truth value of a value in a condition (\<^verbatim>\<open>if x\<close>, \<^verbatim>\<open>not x\<close>).\<close>

fun truthy :: "json \<Rightarrow> bool" where
  "truthy JNull = False"
| "truthy (JBool b) = b"
| "truthy (JInt n) = (n \<noteq> 0)"
| "truthy (JStr s) = (s \<noteq> [])"
| "truthy (JList xs) = (xs \<noteq> [])"
| "truthy (JDict kvs) = (kvs \<noteq> [])"

fun type_name :: "json \<Rightarrow> string" where
  "type_name JNull = ''NoneType''"
| "type_name (JBool _) = ''bool''"
| "type_name (JInt _) = ''int''"
| "type_name (JStr _) = ''str''"
| "type_name (JList _) = ''list''"
| "type_name (JDict _) = ''dict''"

text \<open>
  Exceptions are values. \<open>AttributeError t a\<close> is "object of type \<open>t\<close> has no
  attribute \<open>a\<close>"; \<open>ExternalError\<close> is whatever a library call outside the
  repository raised.
\<close>

datatype error =
    ValueError string
  | KeyError string
  | AttributeError string string
  | TypeError string
  | ExternalError string

definition quote :: "string \<Rightarrow> string" where
  "quote s = [CHR 0x27] @ s @ [CHR 0x27]"

text \<open>\<^verbatim>\<open>str(e)\<close> for the exceptions above.\<close>

fun str_error :: "error \<Rightarrow> string" where
  "str_error (ValueError m) = m"
| "str_error (KeyError k) = quote k"
| "str_error (AttributeError t a) =
     quote t @ '' object has no attribute '' @ quote a"
| "str_error (TypeError m) = m"
| "str_error (ExternalError m) = m"

text \<open>\<^verbatim>\<open>d.get(k, default)\<close> on a dictionary.\<close>

definition dict_get :: "dict \<Rightarrow> string \<Rightarrow> json \<Rightarrow> json" where
  "dict_get d k dflt = (case map_of d k of Some v \<Rightarrow> v | None \<Rightarrow> dflt)"

text \<open>\<^verbatim>\<open>x.get(k, default)\<close> on any value: only a dictionary has the method.\<close>

definition json_get :: "json \<Rightarrow> string \<Rightarrow> json \<Rightarrow> error + json" where
  "json_get x k dflt =
     (case x of
        JDict d \<Rightarrow> Inr (dict_get d k dflt)
      | _ \<Rightarrow> Inl (AttributeError (type_name x) ''get''))"

text \<open>\<^verbatim>\<open>d[k]\<close> on a dictionary.\<close>

definition dict_item :: "dict \<Rightarrow> string \<Rightarrow> error + json" where
  "dict_item d k = (case map_of d k of Some v \<Rightarrow> Inr v | None \<Rightarrow> Inl (KeyError k))"

text \<open>
  \<^verbatim>\<open>x[k]\<close> with a string \<open>k\<close> on any value (the wording of the messages is that of
  Python 3.12, which the f-strings of \<^verbatim>\<open>content_orchestrationfal.py\<close> need).
\<close>

definition json_item :: "json \<Rightarrow> string \<Rightarrow> error + json" where
  "json_item x k =
     (case x of
        JDict d \<Rightarrow> dict_item d k
      | JStr _ \<Rightarrow> Inl (TypeError (''string indices must be integers, not '' @ quote ''str''))
      | JList _ \<Rightarrow> Inl (TypeError ''list indices must be integers or slices, not str'')
      | _ \<Rightarrow> Inl (TypeError (quote (type_name x) @ '' object is not subscriptable'')))"

text \<open>
  \<^verbatim>\<open>k in x\<close> with a string \<open>k\<close> on any value: a key of a dictionary, an element of
  a list, a substring of a string; the other values are not iterable.
\<close>

fun is_substring :: "string \<Rightarrow> string \<Rightarrow> bool" where
  "is_substring [] k = (k = [])"
| "is_substring (c # s) k = (take (length k) (c # s) = k \<or> is_substring s k)"

definition py_in :: "string \<Rightarrow> json \<Rightarrow> error + bool" where
  "py_in k x =
     (case x of
        JDict d \<Rightarrow> Inr (k \<in> fst ` set d)
      | JList xs \<Rightarrow> Inr (JStr k \<in> set xs)
      | JStr s \<Rightarrow> Inr (is_substring s k)
      | _ \<Rightarrow> Inl (TypeError (''argument of type '' @ quote (type_name x) @ '' is not iterable'')))"


section \<open>The outside world\<close>

text \<open>
  What the code gets from outside the repository is a parameter of the model: the
  value \<^verbatim>\<open>load_platform_rules()\<close> returns (\<^verbatim>\<open>json.load(f)["PLATFORM_RULES"]\<close>, any
  JSON value, or the exception that reading the file raised), Python's
  \<^verbatim>\<open>str.upper\<close>, the Jinja2 rendering of the two prompt templates on their keyword
  arguments (each module has its own template text), Python's \<^verbatim>\<open>str()\<close> as the
  f-strings apply it, and the generation services. \<^verbatim>\<open>generate_text_with_gemini\<close> is one
  \<^verbatim>\<open>try\<close> block that returns the answer or the error text, so it is the function
  \<open>gemini\<close>; of the image and video generators the \<^verbatim>\<open>try\<close> block (the service call,
  the extraction of the URL, the error text) is a function of the arguments sent.
\<close>

record env =
  load_platform_rules :: "error + json"
  str_upper :: "string \<Rightarrow> string"
  render_text :: "dict \<Rightarrow> error + string"
  render_media :: "dict \<Rightarrow> error + string"
  py_str :: "json \<Rightarrow> string"
  gemini :: "string \<Rightarrow> string"
  fal_image :: "dict \<Rightarrow> string"
  fal_video :: "dict \<Rightarrow> string"
  replicate_image :: "dict \<Rightarrow> string"
  replicate_video :: "dict \<Rightarrow> string"
  path_exists :: "string \<Rightarrow> bool"
  open_file :: "string \<Rightarrow> error option"

text \<open>Sequencing of steps that may raise: the first exception ends the computation.\<close>

definition and_then :: "error + 'a \<Rightarrow> ('a \<Rightarrow> error + 'b) \<Rightarrow> error + 'b" where
  "and_then r f = (case r of Inl e \<Rightarrow> Inl e | Inr x \<Rightarrow> f x)"


section \<open>Merging the rules\<close>

text \<open>
  \<^verbatim>\<open>deep_merge(base, override)\<close> (the same text in all three modules). The first
  argument is \<^verbatim>\<open>result\<close>, which starts as the copy of \<^verbatim>\<open>base\<close>; the second is
  what is left of \<^verbatim>\<open>override.items()\<close>. One step of the recursion is one pass of
  the loop body; the inner call is the function's own recursive call.
\<close>

fun deep_merge :: "dict \<Rightarrow> dict \<Rightarrow> dict" where
  "deep_merge result [] = result"
| "deep_merge result ((k, v) # items) =
     deep_merge
       (case map_of result k of
          Some (JDict b) \<Rightarrow>
            (case v of
               JDict ov \<Rightarrow> AList.update k (JDict (deep_merge b ov)) result
             | _ \<Rightarrow> AList.update k v result)
        | _ \<Rightarrow> AList.update k v result)
       items"

text \<open>
  The claim's own words for the merged value at one key, given the default's and the
  intent's entry there: the intent's value overrides the default's, and two
  dictionaries are merged recursively.
\<close>

definition spec_merged_value :: "json option \<Rightarrow> json option \<Rightarrow> json option" where
  "spec_merged_value dv iv =
     (case iv of
        None \<Rightarrow> dv
      | Some v \<Rightarrow>
          (case dv of
             Some (JDict b) \<Rightarrow>
               (case v of JDict c \<Rightarrow> Some (JDict (deep_merge b c)) | _ \<Rightarrow> Some v)
           | _ \<Rightarrow> Some v))"

text \<open>
  The call \<^verbatim>\<open>deep_merge(base, override)\<close> on any two values. \<^verbatim>\<open>override.items()\<close>
  raises unless \<^verbatim>\<open>override\<close> is a dictionary. On two dictionaries the call is
  \<^const>\<open>deep_merge\<close>. When \<^verbatim>\<open>base\<close> is no dictionary, an empty \<^verbatim>\<open>override\<close> returns
  the copy of \<^verbatim>\<open>base\<close>, and otherwise the first pass of the loop raises: at
  \<^verbatim>\<open>k in result\<close> when \<^verbatim>\<open>result\<close> is not iterable, at \<^verbatim>\<open>result[k]\<close> when \<open>k\<close> is
  found in the list or in the string, at \<^verbatim>\<open>result[k] = ...\<close> when it is not.
\<close>

definition deep_merge_call :: "json \<Rightarrow> json \<Rightarrow> error + json" where
  "deep_merge_call base override =
     (case override of
        JDict ov \<Rightarrow>
          (case base of
             JDict b \<Rightarrow> Inr (JDict (deep_merge b ov))
           | _ \<Rightarrow>
             (case ov of
                [] \<Rightarrow> Inr base
              | (k, v) # items \<Rightarrow>
                  and_then (py_in k base) (\<lambda>found.
                    if found then json_item base k
                    else (case base of
                            JList _ \<Rightarrow>
                              Inl (TypeError ''list indices must be integers or slices, not str'')
                          | _ \<Rightarrow>
                              Inl (TypeError (quote (type_name base) @
                                     '' object does not support item assignment''))))))
      | _ \<Rightarrow> Inl (AttributeError (type_name override) ''items''))"

text \<open>
  \<^verbatim>\<open>build_generation_plan(platform, intent)\<close>, statement by statement. The last
  assignment, \<^verbatim>\<open>merged["_meta"] = ...\<close>, raises when \<^verbatim>\<open>merged\<close> is no dictionary.
\<close>

definition meta :: "string \<Rightarrow> string \<Rightarrow> json" where
  "meta platform intent = JDict [(''platform'', JStr platform), (''intent'', JStr intent)]"

definition build_generation_plan :: "env \<Rightarrow> string \<Rightarrow> string \<Rightarrow> error + dict" where
  "build_generation_plan env platform0 intent =
     and_then (load_platform_rules env) (\<lambda>rules.
       let platform = str_upper env platform0 in
       and_then (py_in platform rules) (\<lambda>platform_found.
         if \<not> platform_found
           then Inl (ValueError (''Platform '' @ platform @ '' not found''))
         else
           and_then (json_item rules platform) (\<lambda>platform_rules.
           and_then (py_in intent platform_rules) (\<lambda>intent_found.
             if \<not> intent_found
               then Inl (ValueError
                          (''Intent '' @ intent @ '' not found for platform '' @ platform))
             else
               and_then (json_item platform_rules ''DEFAULT'') (\<lambda>default_plan.
               and_then (json_item platform_rules intent) (\<lambda>intent_plan.
               and_then (deep_merge_call default_plan intent_plan) (\<lambda>merged.
                 case merged of
                   JDict m \<Rightarrow> Inr (AList.update ''_meta'' (meta platform intent) m)
                 | JList _ \<Rightarrow>
                     Inl (TypeError ''list indices must be integers or slices, not str'')
                 | _ \<Rightarrow>
                     Inl (TypeError (quote (type_name merged) @
                            '' object does not support item assignment'')))))))))"

text \<open>The fallback configuration \<^verbatim>\<open>load_platform_rules\<close> writes when no file exists.\<close>

definition dummy_rules :: json where
  "dummy_rules =
     JDict [(''X'', JDict
       [(''DEFAULT'', JDict
         [(''content_type'', JStr ''post''),
          (''objective'', JStr ''engagement''),
          (''tone'', JStr ''professional''),
          (''text_constraints'', JDict [(''max_chars'', JInt 280)]),
          (''media_constraints'', JDict [(''type'', JStr ''optional'')])])])]"

text \<open>A configuration whose platform has an intent and no \<^verbatim>\<open>DEFAULT\<close> entry.\<close>

definition rules_without_default :: json where
  "rules_without_default =
     JDict [(''X'', JDict [(''PROMO'', JDict [(''objective'', JStr ''conversion'')])])]"

text \<open>A configuration whose intent entry is \<^verbatim>\<open>null\<close>.\<close>

definition rules_null_intent :: json where
  "rules_null_intent =
     JDict [(''X'', JDict [(''DEFAULT'', JDict [(''tone'', JStr ''bold'')]), (''PROMO'', JNull)])]"

text \<open>A configuration with a nested override.\<close>

definition promo_rules :: json where
  "promo_rules =
     JDict [(''X'', JDict
       [(''DEFAULT'', JDict
         [(''objective'', JStr ''engagement''),
          (''text_constraints'', JDict [(''max_chars'', JInt 280), (''allow_hashtags'', JBool True)])]),
        (''PROMO'', JDict
         [(''objective'', JStr ''conversion''),
          (''text_constraints'', JDict [(''max_chars'', JInt 100)])])])]"


section \<open>Normalising the plan\<close>

text \<open>The optional \<^verbatim>\<open>user_media_choice\<close> as a value.\<close>

definition opt_str :: "string option \<Rightarrow> json" where
  "opt_str s = (case s of None \<Rightarrow> JNull | Some t \<Rightarrow> JStr t)"

text \<open>Python's \<^verbatim>\<open>not x\<close>.\<close>

definition py_not :: "json \<Rightarrow> bool" where
  "py_not x = (\<not> truthy x)"

text \<open>
  \<^verbatim>\<open>normalize_plan(raw, user_media_choice)\<close> of \<^verbatim>\<open>content_orchestration.py\<close>,
  in the order of its statements: the \<^verbatim>\<open>if\<close> chain that sets \<^verbatim>\<open>allowed_types\<close>
  from \<^verbatim>\<open>raw_type\<close>, the two statements that set \<^verbatim>\<open>selected_type\<close>, and the
  dictionary it returns. \<^verbatim>\<open>allowed_types[0]\<close> is read only where \<^verbatim>\<open>allowed_types\<close>
  is non-empty.
\<close>

definition allowed_types :: "json \<Rightarrow> json list" where
  "allowed_types raw_type =
     (if raw_type = JStr ''optional'' then [JStr ''image'', JStr ''video'']
      else if raw_type = JStr ''image_or_short_video'' then [JStr ''image'', JStr ''video'']
      else if raw_type \<in> set [JStr ''image'', JStr ''video'', JStr ''photo_carousel'',
                               JStr ''text_only'']
        then [raw_type]
      else [])"

definition selected_type :: "json \<Rightarrow> json list \<Rightarrow> string option \<Rightarrow> json" where
  "selected_type raw_type allowed user_media_choice =
     (let chosen = (if opt_str user_media_choice \<in> set allowed
                    then opt_str user_media_choice else JNull)
      in if py_not chosen \<and> allowed \<noteq> []
         then (if raw_type \<in> set allowed then raw_type else hd allowed)
         else chosen)"

text \<open>
  The dictionary literal \<^verbatim>\<open>normalize_plan\<close> returns; it is the same text in
  \<^verbatim>\<open>content_orchestration.py\<close> and \<^verbatim>\<open>content_orchestrationfal.py\<close>. Here \<open>m\<close> is
  \<^verbatim>\<open>media\<close>, known to be a dictionary by then.
\<close>

definition normalized :: "dict \<Rightarrow> dict \<Rightarrow> json list \<Rightarrow> json \<Rightarrow> dict" where
  "normalized raw m allowed selected =
     [(''platform'', dict_get raw ''platform'' JNull),
      (''content_type'', dict_get raw ''content_type'' JNull),
      (''objective'', dict_get raw ''objective'' JNull),
      (''tone'', dict_get raw ''tone'' JNull),
      (''text_constraints'', dict_get raw ''text_constraints'' (JDict [])),
      (''media_constraints'', JDict
        [(''allowed_types'', JList allowed),
         (''selected_type'', selected),
         (''raw'', JDict m),
         (''image'', dict_get m ''image'' (JDict [])),
         (''video'', dict_get m ''video'' (JDict [])),
         (''image_count'', dict_get m ''image_count'' JNull),
         (''aspect_ratio'', dict_get m ''aspect_ratio'' JNull),
         (''safe_zone_required'', dict_get m ''safe_zone_required'' (JBool False)),
         (''ugc_style'', dict_get m ''ugc_style'' (JBool False)),
         (''supports_audio'', dict_get m ''supports_audio'' (JBool False)),
         (''recommended_use_cases'', dict_get m ''recommended_use_cases'' (JList []))]),
      (''cta_style'', dict_get raw ''cta_style'' JNull),
      (''optimization_goal'', dict_get raw ''optimization_goal'' JNull),
      (''variation_count'', dict_get raw ''variation_count'' JNull),
      (''_meta'', dict_get raw ''_meta'' JNull)]"

text \<open>
  \<^verbatim>\<open>media.get("type")\<close> raises when \<^verbatim>\<open>raw["media_constraints"]\<close> is present and not
  a dictionary.
\<close>

definition normalize_plan :: "dict \<Rightarrow> string option \<Rightarrow> error + dict" where
  "normalize_plan raw user_media_choice =
     (case dict_get raw ''media_constraints'' (JDict []) of
        JDict m \<Rightarrow>
          (let raw_type = dict_get m ''type'' JNull;
               allowed = allowed_types raw_type
           in Inr (normalized raw m allowed (selected_type raw_type allowed user_media_choice)))
      | media \<Rightarrow> Inl (AttributeError (type_name media) ''get''))"

text \<open>\<^verbatim>\<open>normalize_plan(raw, user_media_choice)\<close> of \<^verbatim>\<open>content_orchestrationfal.py\<close>.\<close>

definition allowed_types_fal :: "json \<Rightarrow> json list" where
  "allowed_types_fal raw_type =
     (if raw_type \<in> set [JStr ''optional'', JStr ''image_or_short_video'']
        then [JStr ''image'', JStr ''video'']
      else if raw_type \<in> set [JStr ''video'', JStr ''photo_carousel'', JStr ''text_only'']
        then [raw_type]
      else [])"

definition selected_type_fal :: "json list \<Rightarrow> string option \<Rightarrow> json" where
  "selected_type_fal allowed user_media_choice =
     (if opt_str user_media_choice \<in> set allowed then opt_str user_media_choice
      else (if allowed \<noteq> [] then hd allowed else JNull))"

definition normalize_plan_fal :: "dict \<Rightarrow> string option \<Rightarrow> error + dict" where
  "normalize_plan_fal raw user_media_choice =
     (case dict_get raw ''media_constraints'' (JDict []) of
        JDict m \<Rightarrow>
          (let raw_type = dict_get m ''type'' JNull;
               allowed = allowed_types_fal raw_type
           in Inr (normalized raw m allowed (selected_type_fal allowed user_media_choice)))
      | media \<Rightarrow> Inl (AttributeError (type_name media) ''get''))"

text \<open>A raw plan whose media type is \<^verbatim>\<open>image\<close>, and the merged default plan of \<^verbatim>\<open>X\<close>.\<close>

definition image_plan :: dict where
  "image_plan = [(''content_type'', JStr ''post''), (''media_constraints'', JDict [(''type'', JStr ''image'')])]"

definition x_default_plan :: dict where
  "x_default_plan =
     [(''content_type'', JStr ''post''),
      (''objective'', JStr ''engagement''),
      (''tone'', JStr ''professional''),
      (''text_constraints'', JDict [(''max_chars'', JInt 280)]),
      (''media_constraints'', JDict [(''type'', JStr ''optional'')]),
      (''_meta'', JDict [(''platform'', JStr ''X''), (''intent'', JStr ''DEFAULT'')])]"


section \<open>Prompts\<close>

text \<open>\<^verbatim>\<open>build_text_prompt(plan)\<close>, the same text in the three modules.\<close>

definition build_text_prompt :: "env \<Rightarrow> dict \<Rightarrow> error + string" where
  "build_text_prompt env plan =
     and_then (dict_item plan ''platform'') (\<lambda>platform.
     and_then (dict_item plan ''objective'') (\<lambda>objective.
     and_then (dict_item plan ''content_type'') (\<lambda>content_type.
     and_then (dict_item plan ''tone'') (\<lambda>tone.
     and_then (dict_item plan ''text_constraints'') (\<lambda>text_constraints.
       render_text env
         [(''platform'', platform), (''objective'', objective),
          (''content_type'', content_type), (''tone'', tone),
          (''text_constraints'', text_constraints)])))))"

text \<open>
  The \<^verbatim>\<open>return Template(MEDIA_PROMPT_TEMPLATE).render(...)\<close> statement that ends
  \<^verbatim>\<open>build_media_prompt\<close> in the three modules.
\<close>

definition render_media_template :: "env \<Rightarrow> dict \<Rightarrow> json \<Rightarrow> error + string option" where
  "render_media_template env plan media_type =
     and_then (dict_item plan ''platform'') (\<lambda>platform.
     and_then (dict_item plan ''content_type'') (\<lambda>content_type.
     and_then (dict_item plan ''objective'') (\<lambda>objective.
     and_then (dict_item plan ''media_constraints'') (\<lambda>media_constraints.
     and_then (render_media env
         [(''platform'', platform), (''content_type'', content_type),
          (''objective'', objective), (''media_type'', media_type),
          (''media_constraints'', media_constraints)]) (\<lambda>rendered.
       Inr (Some rendered))))))"

text \<open>\<^verbatim>\<open>build_media_prompt(plan)\<close> of \<^verbatim>\<open>content_orchestration.py\<close>.\<close>

definition build_media_prompt :: "env \<Rightarrow> dict \<Rightarrow> error + string option" where
  "build_media_prompt env plan =
     and_then (dict_item plan ''media_constraints'') (\<lambda>media_constraints.
     and_then (json_get media_constraints ''selected_type'' JNull) (\<lambda>media_type.
       if py_not media_type \<or> media_type = JStr ''text_only'' then Inr None
       else render_media_template env plan media_type))"

text \<open>\<^verbatim>\<open>build_media_prompt(plan)\<close> of \<^verbatim>\<open>content_orchestrationfal.py\<close>.\<close>

definition build_media_prompt_fal :: "env \<Rightarrow> dict \<Rightarrow> error + string option" where
  "build_media_prompt_fal env plan =
     and_then (dict_item plan ''media_constraints'') (\<lambda>media_constraints.
     and_then (json_item media_constraints ''selected_type'') (\<lambda>media_type.
       if py_not media_type \<or> media_type = JStr ''text_only'' then Inr None
       else render_media_template env plan media_type))"

text \<open>\<^verbatim>\<open>build_media_prompt(plan)\<close> of \<^verbatim>\<open>test(1).py\<close>.\<close>

definition build_media_prompt_test1 :: "env \<Rightarrow> dict \<Rightarrow> error + string option" where
  "build_media_prompt_test1 env plan =
     and_then (dict_item plan ''media_constraints'') (\<lambda>media_constraints.
     and_then (json_item media_constraints ''selected_type'') (\<lambda>media_type.
       if py_not media_type then Inr None
       else render_media_template env plan media_type))"

text \<open>The user data blocks, line by line; every line ends with a newline.\<close>

definition text_of_lines :: "string list \<Rightarrow> string" where
  "text_of_lines ls = concat (map (\<lambda>l. l @ [CHR 0x0A]) ls)"

definition build_text_user_data_block :: "env \<Rightarrow> dict \<Rightarrow> string" where
  "build_text_user_data_block env user_inputs =
     text_of_lines
       [[],
        ''===================='',
        ''USER PROVIDED DATA'',
        ''===================='',
        [],
        ''CONTENT IDEA:'',
        py_str env (dict_get user_inputs ''content_idea'' JNull),
        [],
        ''CONTEXT / DESCRIPTION:'',
        py_str env (dict_get user_inputs ''description'' JNull),
        [],
        ''REFERENCE TEXT:'',
        py_str env (dict_get user_inputs ''reference_text'' JNull),
        [],
        ''===================='',
        ''RULES'',
        ''===================='',
        ''- All fields above are provided by the user'',
        ''- Use them as the sole source of truth'',
        ''- Do NOT invent missing information'']"

definition build_media_user_data_block :: "env \<Rightarrow> dict \<Rightarrow> dict \<Rightarrow> string" where
  "build_media_user_data_block env user_inputs uploaded_files =
     text_of_lines
       [[],
        ''===================='',
        ''USER PROVIDED DATA'',
        ''===================='',
        [],
        ''CORE IDEA:'',
        py_str env (dict_get user_inputs ''content_idea'' JNull),
        [],
        ''CONTEXT / DESCRIPTION:'',
        py_str env (dict_get user_inputs ''description'' JNull),
        [],
        (if truthy (dict_get uploaded_files ''reference_image'' JNull)
         then text_of_lines [[], ''VISUAL REFERENCE:'',
                ''Use the attached image(s) as visual/style reference.'']
         else []),
        [],
        (if truthy (dict_get uploaded_files ''video_init_image'' JNull)
         then text_of_lines [[], ''INITIAL FRAME:'',
                ''Use the attached image as the starting frame.'']
         else []),
        [],
        ''===================='',
        ''RULES'',
        ''===================='',
        ''- All fields above are provided by the user'',
        ''- Use them as the sole source of truth'',
        ''- Do NOT invent visual elements not implied by the data'']"

text \<open>
  The request for a refined visual prompt, the same f-string in
  \<^verbatim>\<open>orchestrate_content_generation\<close> and in \<^verbatim>\<open>visual_refiner_node\<close>.
\<close>

definition visual_prompt_request :: "env \<Rightarrow> string \<Rightarrow> json \<Rightarrow> string" where
  "visual_prompt_request env post_text media_type =
     ''Based on this social media post: '' @ quote post_text @
     '', create a detailed visual prompt for an '' @ py_str env media_type @
     '' generation. Focus on style, lighting, and composition. Return only the prompt.''"

text \<open>
  \<^verbatim>\<open>range(n)\<close> on a value: an integer (a Boolean is one) gives the indices, anything
  else raises \<^verbatim>\<open>TypeError\<close>.
\<close>

definition py_range :: "json \<Rightarrow> error + nat list" where
  "py_range n =
     (case n of
        JInt k \<Rightarrow> Inr [0..<nat k]
      | JBool b \<Rightarrow> Inr [0..<(if b then 1 else 0)]
      | _ \<Rightarrow> Inl (TypeError (quote (type_name n) @ '' object cannot be interpreted as an integer'')))"

text \<open>Decimal digits of a number, for \<^verbatim>\<open>{i+1}\<close> in an f-string.\<close>

fun show_nat :: "nat \<Rightarrow> string" where
  "show_nat n =
     (if n < 10 then [''0123456789'' ! n]
      else show_nat (n div 10) @ [''0123456789'' ! (n mod 10)])"

declare show_nat.simps [simp del]


section \<open>The orchestration of \<^verbatim>\<open>content_orchestration.py\<close>\<close>

text \<open>
  \<^verbatim>\<open>build_final_model_input\<close> returns a dictionary with three fixed keys; it is a
  record here. The media payload stays a dictionary.
\<close>

record final_input =
  fi_text_model_input :: string
  fi_media_payload :: dict
  fi_generation_plan :: dict

definition build_final_model_input ::
  "env \<Rightarrow> dict \<Rightarrow> dict \<Rightarrow> dict \<Rightarrow> error + final_input" where
  "build_final_model_input env plan user_inputs uploaded_files =
     and_then (build_text_prompt env plan) (\<lambda>text_prompt.
     and_then (build_media_prompt env plan) (\<lambda>media_prompt.
       let text_user_data = build_text_user_data_block env user_inputs;
           media_user_data = build_media_user_data_block env user_inputs uploaded_files
       in case dict_get plan ''media_constraints'' (JDict []) of
            JDict media_constraints \<Rightarrow>
              (let selected = dict_get media_constraints ''selected_type'' JNull in
               Inr \<lparr>fi_text_model_input = text_prompt @ [CHR 0x0A, CHR 0x0A] @ text_user_data,
                    fi_media_payload =
                      [(''media_model_input'',
                        (case media_prompt of
                           None \<Rightarrow> JNull
                         | Some p \<Rightarrow>
                             if p \<noteq> [] then JStr (p @ [CHR 0x0A, CHR 0x0A] @ media_user_data)
                             else JNull)),
                       (''media_type'', selected),
                       (''media_constraints'', JDict
                         [(''allowed_types'', dict_get media_constraints ''allowed_types'' (JList [])),
                          (''selected_type'', selected),
                          (''image'', dict_get media_constraints ''image'' JNull),
                          (''video'', dict_get media_constraints ''video'' JNull),
                          (''image_count'', dict_get media_constraints ''image_count'' JNull),
                          (''aspect_ratio'', dict_get media_constraints ''aspect_ratio'' JNull),
                          (''safe_zone_required'',
                             dict_get media_constraints ''safe_zone_required'' (JBool False)),
                          (''ugc_style'', dict_get media_constraints ''ugc_style'' (JBool False)),
                          (''supports_audio'',
                             dict_get media_constraints ''supports_audio'' (JBool False)),
                          (''recommended_use_cases'',
                             dict_get media_constraints ''recommended_use_cases'' (JList []))]),
                       (''reference_image'', dict_get uploaded_files ''reference_image'' JNull),
                       (''video_init_image'', dict_get uploaded_files ''video_init_image'' JNull)],
                    fi_generation_plan = plan\<rparr>)
          | other \<Rightarrow> Inl (AttributeError (type_name other) ''get'')))"

text \<open>
  \<^verbatim>\<open>generate_image_with_replicate\<close>: the input holds the prompt only.
  \<^verbatim>\<open>generate_video_with_replicate\<close>: before its \<^verbatim>\<open>try\<close> block it looks at
  \<^verbatim>\<open>init_image\<close>, which may raise (a value without \<^verbatim>\<open>startswith\<close>, a file that
  cannot be opened).
\<close>

definition generate_image_with_replicate :: "env \<Rightarrow> string \<Rightarrow> json \<Rightarrow> string" where
  "generate_image_with_replicate env prompt reference_image =
     replicate_image env [(''prompt'', JStr prompt)]"

definition generate_video_with_replicate :: "env \<Rightarrow> string \<Rightarrow> json \<Rightarrow> error + string" where
  "generate_video_with_replicate env prompt init_image =
     (let input_params =
            [(''prompt'', JStr prompt), (''aspect_ratio'', JStr ''16:9''),
             (''model'', JStr ''0.9.1'')]
      in if truthy init_image then
           (case init_image of
              JStr path \<Rightarrow>
                if take 4 path = ''http''
                  then Inr (replicate_video env (AList.update ''image'' (JStr path) input_params))
                else if path_exists env path
                  then (case open_file env path of
                          Some e \<Rightarrow> Inl e
                        | None \<Rightarrow>
                            Inr (replicate_video env
                                   (AList.update ''image'' (JStr path) input_params)))
                else Inr (replicate_video env input_params)
            | other \<Rightarrow> Inl (AttributeError (type_name other) ''startswith''))
         else Inr (replicate_video env input_params))"

text \<open>
  The body of the \<^verbatim>\<open>try\<close> block of \<^verbatim>\<open>orchestrate_content_generation\<close>: the value
  \<^verbatim>\<open>media_result\<close> has when the block ends, or the exception that leaves it.
\<close>

definition generate_media ::
  "env \<Rightarrow> dict \<Rightarrow> final_input \<Rightarrow> string \<Rightarrow> json \<Rightarrow> error + json" where
  "generate_media env plan final visual_prompt media_type =
     (if media_type = JStr ''image'' then
        Inr (JStr (generate_image_with_replicate env visual_prompt
                     (dict_get (fi_media_payload final) ''reference_image'' JNull)))
      else if media_type = JStr ''video'' then
        and_then (generate_video_with_replicate env visual_prompt
                    (dict_get (fi_media_payload final) ''video_init_image'' JNull)) (\<lambda>url.
          Inr (JStr url))
      else if media_type = JStr ''photo_carousel'' then
        and_then (dict_item plan ''media_constraints'') (\<lambda>media_constraints.
        and_then (json_get media_constraints ''image_count'' (JDict [])) (\<lambda>image_count.
        and_then (py_range (case image_count of
                              JDict d \<Rightarrow> dict_get d ''min'' (JInt 1)
                            | _ \<Rightarrow> JInt 1)) (\<lambda>indices.
          Inr (JList (map (\<lambda>i. JStr (generate_image_with_replicate env
                                        (visual_prompt @ '' - Slide '' @ show_nat (i + 1))
                                        (dict_get (fi_media_payload final) ''reference_image'' JNull)))
                        indices)))))
      else Inr JNull)"

text \<open>
  \<^verbatim>\<open>orchestrate_content_generation\<close>. An exception inside the \<^verbatim>\<open>try\<close> block is printed and \<^verbatim>\<open>media_result\<close> stays
  \<^verbatim>\<open>None\<close>; an exception before it leaves the function.
\<close>

definition orchestrate_content_generation ::
  "env \<Rightarrow> string \<Rightarrow> string \<Rightarrow> dict \<Rightarrow> dict \<Rightarrow> string option \<Rightarrow> error + dict" where
  "orchestrate_content_generation env platform intent user_inputs uploaded_files
       user_media_choice =
     and_then (build_generation_plan env platform intent) (\<lambda>raw_plan.
     and_then (normalize_plan raw_plan user_media_choice) (\<lambda>plan.
     and_then (build_final_model_input env plan user_inputs uploaded_files) (\<lambda>final.
       let post_text = gemini env (fi_text_model_input final) in
       and_then (dict_item (fi_media_payload final) ''media_type'') (\<lambda>media_type.
         if py_not media_type \<or> media_type = JStr ''text_only''
         then Inr [(''text'', JStr post_text), (''media'', JNull)]
         else
           (let visual_prompt = gemini env (visual_prompt_request env post_text media_type);
                media_result =
                  (case generate_media env plan final visual_prompt media_type of
                     Inl e \<Rightarrow> JNull
                   | Inr r \<Rightarrow> r)
            in Inr [(''text'', JStr post_text), (''media'', media_result)])))))"


section \<open>The workflow of \<^verbatim>\<open>content_orchestrationfal.py\<close>\<close>

text \<open>
  The state of the graph is a dictionary that holds any of the keys \<^verbatim>\<open>AgentState\<close>
  declares: a field is \<open>None\<close> when the key is absent. The values have the declared
  types. Two fields are wider: \<^verbatim>\<open>generated_media_url\<close>, in which the media producer
  also stores the list of a carousel, and \<^verbatim>\<open>errors\<close>, which the handlers of the
  nodes read outside their \<^verbatim>\<open>try\<close> blocks, is any value. What a node returns, a
  dictionary with some of the keys, has the same type.
\<close>

record AgentState =
  platform :: "string option"
  intent :: "string option"
  user_inputs :: "dict option"
  uploaded_files :: "dict option"
  user_media_choice :: "string option option"
  generation_plan :: "dict option"
  text_model_input :: "string option"
  media_payload :: "dict option"
  visual_prompt :: "string option option"
  generated_text :: "string option option"
  generated_media_url :: "json option"
  status :: "string option"
  errors :: "json option"

definition no_keys :: AgentState where
  "no_keys =
     \<lparr>platform = None, intent = None, user_inputs = None, uploaded_files = None,
      user_media_choice = None, generation_plan = None, text_model_input = None,
      media_payload = None, visual_prompt = None, generated_text = None,
      generated_media_url = None, status = None, errors = None\<rparr>"

text \<open>
  \<^verbatim>\<open>state[k]\<close>, and the truth value of \<^verbatim>\<open>state.get(k)\<close> for a key that holds a
  string or \<^verbatim>\<open>None\<close>: an absent key gives \<^verbatim>\<open>None\<close> there.
\<close>

definition state_item :: "string \<Rightarrow> 'a option \<Rightarrow> error + 'a" where
  "state_item k v = (case v of None \<Rightarrow> Inl (KeyError k) | Some x \<Rightarrow> Inr x)"

definition state_get_truthy :: "string option option \<Rightarrow> bool" where
  "state_get_truthy v = (case v of Some (Some s) \<Rightarrow> s \<noteq> [] | _ \<Rightarrow> False)"

text \<open>
  The graph library writes every key of a node's result over the state and leaves
  the other keys as they are.
\<close>

definition overwrite :: "'a option \<Rightarrow> 'a option \<Rightarrow> 'a option" where
  "overwrite old new = (case new of None \<Rightarrow> old | Some v \<Rightarrow> Some v)"

definition apply_update :: "AgentState \<Rightarrow> AgentState \<Rightarrow> AgentState" where
  "apply_update s u =
     \<lparr>platform = overwrite (platform s) (platform u),
      intent = overwrite (intent s) (intent u),
      user_inputs = overwrite (user_inputs s) (user_inputs u),
      uploaded_files = overwrite (uploaded_files s) (uploaded_files u),
      user_media_choice = overwrite (user_media_choice s) (user_media_choice u),
      generation_plan = overwrite (generation_plan s) (generation_plan u),
      text_model_input = overwrite (text_model_input s) (text_model_input u),
      media_payload = overwrite (media_payload s) (media_payload u),
      visual_prompt = overwrite (visual_prompt s) (visual_prompt u),
      generated_text = overwrite (generated_text s) (generated_text u),
      generated_media_url = overwrite (generated_media_url s) (generated_media_url u),
      status = overwrite (status s) (status u),
      errors = overwrite (errors s) (errors u)\<rparr>"

text \<open>
  The calls that leave the process: \<^verbatim>\<open>client.models.generate_content\<close> with its
  prompt, and \<^verbatim>\<open>fal_client.subscribe\<close> on the image and on the video model with its
  arguments. A computation yields its result, or the exception it raised, and the
  calls it made until then, in order.
\<close>

datatype api_call = GeminiCall string | FalImageCall dict | FalVideoCall dict

type_synonym 'a io = "(error + 'a) \<times> api_call list"

definition no_call :: "error + 'a \<Rightarrow> 'a io" where
  "no_call r = (r, [])"

definition io_then :: "'a io \<Rightarrow> ('a \<Rightarrow> 'b io) \<Rightarrow> 'b io" where
  "io_then m f =
     (case fst m of
        Inl e \<Rightarrow> (Inl e, snd m)
      | Inr x \<Rightarrow> (fst (f x), snd m @ snd (f x)))"

definition is_gemini :: "api_call \<Rightarrow> bool" where
  "is_gemini c = (case c of GeminiCall _ \<Rightarrow> True | _ \<Rightarrow> False)"

definition is_fal :: "api_call \<Rightarrow> bool" where
  "is_fal c = (case c of GeminiCall _ \<Rightarrow> False | _ \<Rightarrow> True)"

definition generate_text_with_gemini :: "env \<Rightarrow> string \<Rightarrow> string io" where
  "generate_text_with_gemini env prompt = (Inr (gemini env prompt), [GeminiCall prompt])"

text \<open>
  \<^verbatim>\<open>generate_image_with_fal\<close> and \<^verbatim>\<open>generate_video_with_fal\<close> build their arguments
  before the \<^verbatim>\<open>try\<close> block: \<^verbatim>\<open>constraints.get\<close> raises when the plan holds no
  dictionary there.
\<close>

definition generate_image_with_fal :: "env \<Rightarrow> string \<Rightarrow> json \<Rightarrow> json \<Rightarrow> string io" where
  "generate_image_with_fal env prompt constraints reference_image =
     io_then (no_call (json_get constraints ''width'' (JInt 1024))) (\<lambda>width.
     io_then (no_call (json_get constraints ''height'' (JInt 1024))) (\<lambda>height.
       let arguments =
             [(''prompt'', JStr prompt), (''output_format'', JStr ''png''),
              (''width'', width), (''height'', height)] @
             (if truthy reference_image then [(''image_input'', JList [reference_image])]
              else [])
       in (Inr (fal_image env arguments), [FalImageCall arguments])))"

definition generate_video_with_fal :: "env \<Rightarrow> string \<Rightarrow> json \<Rightarrow> json \<Rightarrow> string io" where
  "generate_video_with_fal env prompt constraints init_image =
     io_then (no_call (json_get constraints ''max_duration_sec'' (JInt 8))) (\<lambda>duration.
     io_then (no_call (json_get constraints ''resolution'' (JStr ''1080p''))) (\<lambda>resolution.
     io_then (no_call (json_get constraints ''aspect_ratio'' (JStr ''16:9''))) (\<lambda>aspect_ratio.
     io_then (no_call (json_get constraints ''supports_audio'' (JBool True))) (\<lambda>generate_audio.
       let arguments =
             [(''prompt'', JStr prompt), (''duration'', duration),
              (''resolution'', resolution), (''aspect_ratio'', aspect_ratio),
              (''generate_audio'', generate_audio)] @
             (if truthy init_image then [(''image'', init_image)] else [])
       in (Inr (fal_video env arguments), [FalVideoCall arguments])))))"

text \<open>\<^verbatim>\<open>build_final_model_input\<close> of this module returns four keys.\<close>

record final_input_fal =
  ff_text_model_input :: string
  ff_media_model_input :: "string option"
  ff_media_payload :: dict
  ff_generation_plan :: dict

definition build_final_model_input_fal ::
  "env \<Rightarrow> dict \<Rightarrow> dict \<Rightarrow> dict \<Rightarrow> error + final_input_fal" where
  "build_final_model_input_fal env plan inputs files =
     and_then (build_text_prompt env plan) (\<lambda>text_prompt.
     and_then (build_media_prompt_fal env plan) (\<lambda>media_prompt.
       let text_user_data = build_text_user_data_block env inputs;
           media_user_data = build_media_user_data_block env inputs files
       in Inr \<lparr>ff_text_model_input = text_prompt @ [CHR 0x0A, CHR 0x0A] @ text_user_data,
               ff_media_model_input =
                 (case media_prompt of
                    None \<Rightarrow> None
                  | Some p \<Rightarrow>
                      if p \<noteq> [] then Some (p @ [CHR 0x0A, CHR 0x0A] @ media_user_data)
                      else None),
               ff_media_payload =
                 [(''reference_image'', dict_get files ''reference_image'' JNull),
                  (''video_init_image'', dict_get files ''video_init_image'' JNull)],
               ff_generation_plan = plan\<rparr>))"

text \<open>
  The handler of the five nodes,
  \<^verbatim>\<open>return {"errors": state.get("errors", []) + [f"... failed: {str(e)}"], "status": "failed"}\<close>.
  The sum raises \<^verbatim>\<open>TypeError\<close> unless the left operand is a list.
\<close>

definition failure :: "string \<Rightarrow> AgentState \<Rightarrow> error \<Rightarrow> error + AgentState" where
  "failure name state e =
     (let message = JStr (name @ '' failed: '' @ str_error e) in
      case errors state of
        None \<Rightarrow>
          Inr (no_keys\<lparr>errors := Some (JList [message]), status := Some ''failed''\<rparr>)
      | Some (JList es) \<Rightarrow>
          Inr (no_keys\<lparr>errors := Some (JList (es @ [message])), status := Some ''failed''\<rparr>)
      | Some (JStr _) \<Rightarrow>
          Inl (TypeError (''can only concatenate str (not '' @ [CHR 0x22] @ ''list'' @
                           [CHR 0x22] @ '') to str''))
      | Some other \<Rightarrow>
          Inl (TypeError (''unsupported operand type(s) for +: '' @ quote (type_name other) @
                           '' and '' @ quote ''list'')))"

text \<open>A node: the \<^verbatim>\<open>try\<close> block, and the handler when the block raises.\<close>

definition guarded :: "string \<Rightarrow> (env \<Rightarrow> AgentState \<Rightarrow> AgentState io) \<Rightarrow>
    env \<Rightarrow> AgentState \<Rightarrow> AgentState io" where
  "guarded name body env state =
     (case fst (body env state) of
        Inr update \<Rightarrow> (Inr update, snd (body env state))
      | Inl e \<Rightarrow> (failure name state e, snd (body env state)))"

text \<open>The \<^verbatim>\<open>try\<close> blocks of the five nodes.\<close>

definition planner_body :: "env \<Rightarrow> AgentState \<Rightarrow> AgentState io" where
  "planner_body env state =
     no_call
       (and_then (state_item ''platform'' (platform state)) (\<lambda>p.
        and_then (state_item ''intent'' (intent state)) (\<lambda>i.
        and_then (build_generation_plan env p i) (\<lambda>raw_plan.
        and_then (state_item ''user_media_choice'' (user_media_choice state)) (\<lambda>choice.
        and_then (normalize_plan_fal raw_plan choice) (\<lambda>plan.
          Inr (no_keys\<lparr>generation_plan := Some plan, status := Some ''plan_generated'',
                        errors := Some (JList [])\<rparr>)))))))"

definition prompt_engineer_body :: "env \<Rightarrow> AgentState \<Rightarrow> AgentState io" where
  "prompt_engineer_body env state =
     no_call
       (and_then (state_item ''generation_plan'' (generation_plan state)) (\<lambda>plan.
        and_then (state_item ''user_inputs'' (user_inputs state)) (\<lambda>inputs.
        and_then (state_item ''uploaded_files'' (uploaded_files state)) (\<lambda>files.
        and_then (build_final_model_input_fal env plan inputs files) (\<lambda>final.
          Inr (no_keys\<lparr>text_model_input := Some (ff_text_model_input final),
                        media_payload := Some (ff_media_payload final),
                        visual_prompt := Some (ff_media_model_input final),
                        status := Some ''prompts_engineered'',
                        errors := Some (JList [])\<rparr>))))))"

definition copywriter_body :: "env \<Rightarrow> AgentState \<Rightarrow> AgentState io" where
  "copywriter_body env state =
     (if (case text_model_input state of None \<Rightarrow> True | Some t \<Rightarrow> t = [])
        then no_call (Inl (ValueError ''Text model input missing.''))
      else
        io_then (no_call (state_item ''text_model_input'' (text_model_input state))) (\<lambda>prompt.
        io_then (generate_text_with_gemini env prompt) (\<lambda>post_text.
          no_call (Inr (no_keys\<lparr>generated_text := Some (Some post_text),
                                 status := Some ''text_generated'',
                                 errors := Some (JList [])\<rparr>)))))"

text \<open>\<^verbatim>\<open>state["generation_plan"]["media_constraints"].get("selected_type")\<close>.\<close>

definition selected_media_type :: "AgentState \<Rightarrow> error + json" where
  "selected_media_type state =
     and_then (state_item ''generation_plan'' (generation_plan state)) (\<lambda>plan.
     and_then (dict_item plan ''media_constraints'') (\<lambda>media_constraints.
       json_get media_constraints ''selected_type'' JNull))"

definition visual_refiner_body :: "env \<Rightarrow> AgentState \<Rightarrow> AgentState io" where
  "visual_refiner_body env state =
     io_then (no_call (selected_media_type state)) (\<lambda>media_type.
       if py_not media_type \<or> media_type = JStr ''text_only'' then
         no_call (Inr (no_keys\<lparr>visual_prompt := Some None,
                                status := Some ''visual_refiner_skipped'',
                                errors := Some (JList [])\<rparr>))
       else if \<not> state_get_truthy (generated_text state) then
         no_call (Inl (ValueError ''Generated text missing for media prompt refinement.''))
       else
         io_then (no_call (state_item ''generated_text'' (generated_text state))) (\<lambda>text.
         io_then (generate_text_with_gemini env
                    (visual_prompt_request env (case text of Some t \<Rightarrow> t | None \<Rightarrow> [])
                       media_type)) (\<lambda>refined.
           no_call (Inr (no_keys\<lparr>visual_prompt := Some (Some refined),
                                  status := Some ''visual_prompt_refined'',
                                  errors := Some (JList [])\<rparr>)))))"

text \<open>
  One pass of the carousel loop of \<^verbatim>\<open>media_producer_node\<close> for each index that is
  left; every pass reads \<^verbatim>\<open>state["uploaded_files"]\<close>.
\<close>

fun carousel :: "env \<Rightarrow> AgentState \<Rightarrow> string \<Rightarrow> json \<Rightarrow> nat list \<Rightarrow> json list io" where
  "carousel env state prompt constraints [] = no_call (Inr [])"
| "carousel env state prompt constraints (i # indices) =
     io_then (no_call (state_item ''uploaded_files'' (uploaded_files state))) (\<lambda>files.
     io_then (generate_image_with_fal env (prompt @ '' - Slide '' @ show_nat (i + 1))
                constraints (dict_get files ''reference_image'' JNull)) (\<lambda>url.
     io_then (carousel env state prompt constraints indices) (\<lambda>urls.
       no_call (Inr (JStr url # urls)))))"

definition media_producer_body :: "env \<Rightarrow> AgentState \<Rightarrow> AgentState io" where
  "media_producer_body env state =
     io_then (no_call (selected_media_type state)) (\<lambda>media_type.
       if py_not media_type \<or> media_type = JStr ''text_only'' then
         no_call (Inr (no_keys\<lparr>generated_media_url := Some JNull,
                                status := Some ''media_producer_skipped'',
                                errors := Some (JList [])\<rparr>))
       else if \<not> state_get_truthy (visual_prompt state) then
         no_call (Inl (ValueError ''Visual prompt missing for media generation.''))
       else
         io_then (no_call (state_item ''generation_plan'' (generation_plan state))) (\<lambda>plan.
         io_then (no_call (dict_item plan ''media_constraints'')) (\<lambda>constraints.
         io_then (no_call (state_item ''visual_prompt'' (visual_prompt state))) (\<lambda>vp.
         io_then
           (let prompt = (case vp of Some t \<Rightarrow> t | None \<Rightarrow> []) in
            if media_type = JStr ''image'' then
              io_then (no_call (json_get constraints ''image'' (JDict []))) (\<lambda>image.
              io_then (no_call (state_item ''uploaded_files'' (uploaded_files state))) (\<lambda>files.
              io_then (generate_image_with_fal env prompt image
                         (dict_get files ''reference_image'' JNull)) (\<lambda>url.
                no_call (Inr (JStr url)))))
            else if media_type = JStr ''video'' then
              io_then (no_call (json_get constraints ''video'' (JDict []))) (\<lambda>video.
              io_then (no_call (state_item ''uploaded_files'' (uploaded_files state))) (\<lambda>files.
              io_then (generate_video_with_fal env prompt video
                         (dict_get files ''video_init_image'' JNull)) (\<lambda>url.
                no_call (Inr (JStr url)))))
            else if media_type = JStr ''photo_carousel'' then
              io_then (no_call (json_get constraints ''image_count'' (JDict []))) (\<lambda>image_count.
              io_then (no_call (py_range (case image_count of
                                            JDict d \<Rightarrow> dict_get d ''min'' (JInt 1)
                                          | _ \<Rightarrow> JInt 1))) (\<lambda>indices.
              io_then (no_call (json_get constraints ''image'' (JDict []))) (\<lambda>image.
              io_then (carousel env state prompt image indices) (\<lambda>urls.
                no_call (Inr (JList urls))))))
            else no_call (Inr JNull)) (\<lambda>media_result.
           no_call (Inr (no_keys\<lparr>generated_media_url := Some media_result,
                                  status := Some ''media_produced'',
                                  errors := Some (JList [])\<rparr>)))))))"

text \<open>The five nodes.\<close>

definition planner_node :: "env \<Rightarrow> AgentState \<Rightarrow> AgentState io" where
  "planner_node = guarded ''Planner'' planner_body"

definition prompt_engineer_node :: "env \<Rightarrow> AgentState \<Rightarrow> AgentState io" where
  "prompt_engineer_node = guarded ''Prompt Engineer'' prompt_engineer_body"

definition copywriter_node :: "env \<Rightarrow> AgentState \<Rightarrow> AgentState io" where
  "copywriter_node = guarded ''Copywriter'' copywriter_body"

definition visual_refiner_node :: "env \<Rightarrow> AgentState \<Rightarrow> AgentState io" where
  "visual_refiner_node = guarded ''Visual Refiner'' visual_refiner_body"

definition media_producer_node :: "env \<Rightarrow> AgentState \<Rightarrow> AgentState io" where
  "media_producer_node = guarded ''Media Producer'' media_producer_body"

text \<open>
  The graph as the module builds it, call by call. \<open>END\<close> is the name the library
  gives to the end of a run.
\<close>

record graph =
  nodes :: "(string \<times> (env \<Rightarrow> AgentState \<Rightarrow> AgentState io)) list"
  entry_point :: "string option"
  edges :: "(string \<times> string) list"

definition END :: string where
  "END = ''__end__''"

definition StateGraph :: graph where
  "StateGraph = \<lparr>nodes = [], entry_point = None, edges = []\<rparr>"

definition add_node ::
  "string \<Rightarrow> (env \<Rightarrow> AgentState \<Rightarrow> AgentState io) \<Rightarrow> graph \<Rightarrow> graph" where
  "add_node name f g = g\<lparr>nodes := nodes g @ [(name, f)]\<rparr>"

definition set_entry_point :: "string \<Rightarrow> graph \<Rightarrow> graph" where
  "set_entry_point name g = g\<lparr>entry_point := Some name\<rparr>"

definition add_edge :: "string \<Rightarrow> string \<Rightarrow> graph \<Rightarrow> graph" where
  "add_edge a b g = g\<lparr>edges := edges g @ [(a, b)]\<rparr>"

definition workflow :: graph where
  "workflow =
     (add_edge ''media_producer'' END \<circ>
      add_edge ''visual_refiner'' ''media_producer'' \<circ>
      add_edge ''copywriter'' ''visual_refiner'' \<circ>
      add_edge ''prompt_engineer'' ''copywriter'' \<circ>
      add_edge ''planner'' ''prompt_engineer'' \<circ>
      set_entry_point ''planner'' \<circ>
      add_node ''media_producer'' media_producer_node \<circ>
      add_node ''visual_refiner'' visual_refiner_node \<circ>
      add_node ''copywriter'' copywriter_node \<circ>
      add_node ''prompt_engineer'' prompt_engineer_node \<circ>
      add_node ''planner'' planner_node) StateGraph"

text \<open>
  A run of the compiled graph, for a graph in which every node has one outgoing
  edge: the node at hand is called on the state, its result is written over the
  state, and the run goes on at the target of the node's edge until that is \<open>END\<close>.
  An exception that leaves a node ends the run. The result is the final state or
  the exception, the names of the nodes called, in order, and the calls made. The
  fuel is the library's recursion limit; an input without any key is refused.
\<close>

definition successors :: "graph \<Rightarrow> string \<Rightarrow> string list" where
  "successors g n = map snd (filter (\<lambda>e. fst e = n) (edges g))"

fun run :: "graph \<Rightarrow> env \<Rightarrow> nat \<Rightarrow> string \<Rightarrow> AgentState \<Rightarrow>
    (error + AgentState) \<times> string list \<times> api_call list" where
  "run g env 0 n state = (Inl (ExternalError ''GraphRecursionError''), [], [])"
| "run g env (Suc fuel) n state =
     (if n = END then (Inr state, [], [])
      else
        case map_of (nodes g) n of
          None \<Rightarrow> (Inl (ExternalError (''unknown node '' @ n)), [], [])
        | Some f \<Rightarrow>
            (case fst (f env state) of
               Inl e \<Rightarrow> (Inl e, [n], snd (f env state))
             | Inr update \<Rightarrow>
                 (case successors g n of
                    [next_node] \<Rightarrow>
                      (let rest = run g env fuel next_node (apply_update state update)
                       in (fst rest, n # fst (snd rest), snd (f env state) @ snd (snd rest)))
                  | _ \<Rightarrow> (Inl (ExternalError (''not one edge from '' @ n)), [n],
                           snd (f env state)))))"

definition invoke :: "graph \<Rightarrow> env \<Rightarrow> AgentState \<Rightarrow>
    (error + AgentState) \<times> string list \<times> api_call list" where
  "invoke g env input =
     (if input = no_keys then (Inl (ExternalError ''EmptyInputError''), [], [])
      else
        case entry_point g of
          None \<Rightarrow> (Inl (ExternalError ''no entry point''), [], [])
        | Some n \<Rightarrow> run g env 25 n input)"


section \<open>Sample inputs\<close>

text \<open>
  An outside world in which every service answers and every template renders; it
  reads the given rules, and its \<^verbatim>\<open>str.upper\<close> is the one of ASCII text.
\<close>

definition ascii_upper_char :: "char \<Rightarrow> char" where
  "ascii_upper_char c =
     (case map_of (zip ''abcdefghijklmnopqrstuvwxyz'' ''ABCDEFGHIJKLMNOPQRSTUVWXYZ'') c of
        Some u \<Rightarrow> u
      | None \<Rightarrow> c)"

definition ascii_upper :: "string \<Rightarrow> string" where
  "ascii_upper s = map ascii_upper_char s"

definition env_with :: "json \<Rightarrow> env" where
  "env_with loaded =
     \<lparr>load_platform_rules = Inr loaded,
      str_upper = ascii_upper,
      render_text = (\<lambda>kwargs. Inr ''text prompt''),
      render_media = (\<lambda>kwargs. Inr ''media prompt''),
      py_str = (\<lambda>v. case v of JStr s \<Rightarrow> s | _ \<Rightarrow> ''None''),
      gemini = (\<lambda>prompt. ''generated text''),
      fal_image = (\<lambda>arguments. ''https://fal.example/image.png''),
      fal_video = (\<lambda>arguments. ''https://fal.example/video.mp4''),
      replicate_image = (\<lambda>input. ''https://replicate.example/image.png''),
      replicate_video = (\<lambda>input. ''https://replicate.example/video.mp4''),
      path_exists = (\<lambda>path. False),
      open_file = (\<lambda>path. None)\<rparr>"

definition demo_env :: env where
  "demo_env = env_with dummy_rules"

text \<open>The normalized plan of a raw plan whose media type is \<^verbatim>\<open>text_only\<close>.\<close>

definition text_only_plan :: dict where
  "text_only_plan =
     normalized
       [(''platform'', JStr ''X''), (''content_type'', JStr ''post''),
        (''objective'', JStr ''engagement''), (''tone'', JStr ''professional''),
        (''media_constraints'', JDict [(''type'', JStr ''text_only'')])]
       [(''type'', JStr ''text_only'')] [JStr ''text_only''] (JStr ''text_only'')"

text \<open>A configuration whose default plan has \<^verbatim>\<open>"media_constraints": null\<close>.\<close>

definition rules_null_media :: json where
  "rules_null_media =
     JDict [(''X'', JDict [(''DEFAULT'',
       JDict [(''tone'', JStr ''bold''), (''media_constraints'', JNull)])])]"

text \<open>A configuration whose only plan is text only.\<close>

definition text_only_rules :: json where
  "text_only_rules =
     JDict [(''X'', JDict
       [(''DEFAULT'', JDict
         [(''content_type'', JStr ''post''),
          (''objective'', JStr ''engagement''),
          (''tone'', JStr ''professional''),
          (''text_constraints'', JDict [(''max_chars'', JInt 280)]),
          (''media_constraints'', JDict [(''type'', JStr ''text_only'')])])])]"


text \<open>
  The input of the module's first demo run, with the intent that the fallback
  configuration has, and an input whose \<^verbatim>\<open>errors\<close> entry is \<^verbatim>\<open>None\<close>.
\<close>

definition demo_state :: AgentState where
  "demo_state =
     no_keys\<lparr>platform := Some ''X'', intent := Some ''DEFAULT'',
             user_inputs := Some [(''content_idea'', JStr ''AI-powered content generation'')],
             uploaded_files := Some [(''reference_image'', JNull), (''video_init_image'', JNull)],
             user_media_choice := Some (Some ''image''),
             errors := Some (JList [])\<rparr>"

definition state_null_errors :: AgentState where
  "state_null_errors = no_keys\<lparr>errors := Some JNull\<rparr>"


section \<open>Properties of the merge\<close>

lemma and_then_simps [simp]:
  "and_then (Inl e) f = Inl e"
  "and_then (Inr x) f = f x"
  by (simp_all add: and_then_def)

lemma map_of_fresh: "k \<notin> fst ` set r \<Longrightarrow> map_of r k = None"
  by (simp add: map_of_eq_None_iff)

lemma map_of_Some_key: "map_of r k = Some v \<Longrightarrow> k \<in> fst ` set r"
  by (metis map_of_eq_None_iff option.distinct(1))

lemma update_fresh: "k \<notin> fst ` set r \<Longrightarrow> AList.update k v r = r @ [(k, v)]"
  by (induction r) auto

lemma deep_merge_append:
  "distinct (map fst d) \<Longrightarrow> fst ` set r \<inter> fst ` set d = {} \<Longrightarrow> deep_merge r d = r @ d"
proof (induction d arbitrary: r)
  case Nil
  then show ?case by simp
next
  case (Cons kv d)
  obtain k v where kv: "kv = (k, v)" by (cases kv)
  from Cons.prems kv have fresh: "k \<notin> fst ` set r" by auto
  then have step: "deep_merge r (kv # d) = deep_merge (r @ [(k, v)]) d"
    by (simp add: kv map_of_fresh update_fresh)
  from Cons.prems kv have "distinct (map fst d)"
    and "fst ` set (r @ [(k, v)]) \<inter> fst ` set d = {}"
    by auto
  then have "deep_merge (r @ [(k, v)]) d = (r @ [(k, v)]) @ d"
    by (rule Cons.IH)
  with step show ?case by (simp add: kv)
qed

lemma deep_merge_keys: "fst ` set (deep_merge r d) = fst ` set r \<union> fst ` set d"
  by (induction r d rule: deep_merge.induct)
     (auto simp: AList.dom_update split: option.splits json.splits)

lemma deep_merge_same:
  "wf_json (JDict d) \<Longrightarrow> (\<forall>(k, v) \<in> set d. map_of r k = Some v) \<Longrightarrow> deep_merge r d = r"
proof (induction r d rule: deep_merge.induct)
  case (1 result)
  then show ?case by simp
next
  case (2 result k v items)
  from "2.prems" have look: "map_of result k = Some v" by simp
  have upd: "(case map_of result k of
          Some (JDict b) \<Rightarrow>
            (case v of
               JDict ov \<Rightarrow> AList.update k (JDict (deep_merge b ov)) result
             | _ \<Rightarrow> AList.update k v result)
        | _ \<Rightarrow> AList.update k v result) = result"
  proof (cases v)
    case (JDict ov)
    from "2.prems" JDict have wf: "wf_json (JDict ov)" by simp
    then have "\<forall>(k', v') \<in> set ov. map_of ov k' = Some v'" by auto
    with wf look JDict have "deep_merge ov ov = ov"
      using "2.IH"(1) by blast
    with look JDict show ?thesis by (simp add: AList.update_triv)
  qed (use look in \<open>simp_all add: AList.update_triv\<close>)
  from "2.prems" have "wf_json (JDict items)"
    and "\<forall>(k, v) \<in> set items. map_of result k = Some v"
    by auto
  with "2.IH"(2) upd show ?case by simp
qed

lemma deep_merge_idem: "wf_json (JDict d) \<Longrightarrow> deep_merge d d = d"
  by (rule deep_merge_same) auto

lemma map_of_deep_merge:
  "distinct (map fst ov) \<Longrightarrow>
   map_of (deep_merge b ov) k = spec_merged_value (map_of b k) (map_of ov k)"
proof (induction b ov rule: deep_merge.induct)
  case (1 result)
  then show ?case by (simp add: spec_merged_value_def)
next
  case (2 result k' v items)
  let ?r = "(case map_of result k' of
          Some (JDict b) \<Rightarrow>
            (case v of
               JDict ov \<Rightarrow> AList.update k' (JDict (deep_merge b ov)) result
             | _ \<Rightarrow> AList.update k' v result)
        | _ \<Rightarrow> AList.update k' v result)"
  from "2.prems" have d: "distinct (map fst items)" and fresh: "k' \<notin> fst ` set items"
    by auto
  have ih: "map_of (deep_merge ?r items) k = spec_merged_value (map_of ?r k) (map_of items k)"
    using "2.IH"(2) d by simp
  show ?case
  proof (cases "k = k'")
    case True
    with fresh have "map_of items k = None" by (simp add: map_of_fresh)
    with True ih show ?thesis
      by (simp add: spec_merged_value_def AList.update_conv' split: option.splits json.splits)
  next
    case False
    then have "map_of ?r k = map_of result k"
      by (simp add: AList.update_conv' split: option.splits json.splits)
    with False ih show ?thesis by simp
  qed
qed

text \<open>
  C9. The empty dictionary is a left and a right identity of \<^const>\<open>deep_merge\<close>, the
  merge of a dictionary with itself is that dictionary, and the keys of a merge are
  the keys of the base together with the keys of the override. The dictionary \<open>d\<close>
  is a Python dictionary: each key once, at every depth.
\<close>

theorem deep_merge_identity_idempotent:
  assumes "wf_json (JDict d)"
  shows "deep_merge d [] = d \<and> deep_merge [] d = d \<and> deep_merge d d = d \<and>
         fst ` set (deep_merge base override) = fst ` set base \<union> fst ` set override"
proof -
  from assms have "distinct (map fst d)" by simp
  then have "deep_merge [] d = [] @ d"
    by (rule deep_merge_append) simp
  moreover from assms have "deep_merge d d = d"
    by (rule deep_merge_idem)
  ultimately show ?thesis
    by (simp add: deep_merge_keys)
qed

theorem deep_merge_identity_idempotent_witness:
  "wf_json (JDict [(''tone'', JStr ''bold''), (''text_constraints'', JDict [(''max_chars'', JInt 280)])]) \<and>
   deep_merge [(''tone'', JStr ''bold''), (''text_constraints'', JDict [(''max_chars'', JInt 280)])] []
     = [(''tone'', JStr ''bold''), (''text_constraints'', JDict [(''max_chars'', JInt 280)])] \<and>
   deep_merge [] [(''tone'', JStr ''bold''), (''text_constraints'', JDict [(''max_chars'', JInt 280)])]
     = [(''tone'', JStr ''bold''), (''text_constraints'', JDict [(''max_chars'', JInt 280)])] \<and>
   deep_merge [(''tone'', JStr ''bold''), (''text_constraints'', JDict [(''max_chars'', JInt 280)])]
              [(''tone'', JStr ''bold''), (''text_constraints'', JDict [(''max_chars'', JInt 280)])]
     = [(''tone'', JStr ''bold''), (''text_constraints'', JDict [(''max_chars'', JInt 280)])] \<and>
   fst ` set (deep_merge [(''tone'', JStr ''bold'')] [(''cta_style'', JStr ''soft'')])
     = fst ` set [(''tone'', JStr ''bold'')] \<union> fst ` set [(''cta_style'', JStr ''soft'')]"
proof -
  have wf: "wf_json (JDict [(''tone'', JStr ''bold''),
                            (''text_constraints'', JDict [(''max_chars'', JInt 280)])])"
    by simp
  from deep_merge_identity_idempotent [OF wf,
      of "[(''tone'', JStr ''bold'')]" "[(''cta_style'', JStr ''soft'')]"] wf
  show ?thesis by blast
qed


section \<open>Properties of the generation plan\<close>

text \<open>No step of \<^const>\<open>build_generation_plan\<close> after the two guards raises \<^verbatim>\<open>ValueError\<close>.\<close>

lemma py_in_error: "py_in k x = Inl e \<Longrightarrow> e \<noteq> ValueError msg"
  by (cases x) (auto simp: py_in_def)

lemma dict_item_error: "dict_item d k = Inl e \<Longrightarrow> e \<noteq> ValueError msg"
  by (auto simp: dict_item_def split: option.splits)

lemma json_item_error: "json_item x k = Inl e \<Longrightarrow> e \<noteq> ValueError msg"
  by (cases x) (auto simp: json_item_def dest: dict_item_error)

lemma deep_merge_call_error: "deep_merge_call b ov = Inl e \<Longrightarrow> e \<noteq> ValueError msg"
proof (cases ov)
  case (JDict o')
  assume a: "deep_merge_call b ov = Inl e"
  show ?thesis
  proof (cases "\<exists>bd. b = JDict bd")
    case True
    with a JDict show ?thesis by (auto simp: deep_merge_call_def)
  next
    case False
    show ?thesis
    proof (cases o')
      case Nil
      with a JDict False show ?thesis by (cases b) (auto simp: deep_merge_call_def)
    next
      case (Cons kv items)
      obtain k v where kv: "kv = (k, v)" by (cases kv)
      show ?thesis
      proof (cases "py_in k b")
        case (Inl e')
        with a JDict False Cons kv have "e = e'"
          by (cases b) (auto simp: deep_merge_call_def)
        with Inl show ?thesis by (auto dest: py_in_error)
      next
        case (Inr found)
        show ?thesis
        proof (cases found)
          case True
          with a JDict False Cons kv Inr have "json_item b k = Inl e"
            by (cases b) (auto simp: deep_merge_call_def)
          then show ?thesis by (rule json_item_error)
        next
          case notfound: False
          with a JDict False Cons kv Inr show ?thesis
            by (cases b) (auto simp: deep_merge_call_def)
        qed
      qed
    qed
  qed
qed (auto simp: deep_merge_call_def)

lemma set_meta_error:
  "(case merged of
      JDict m \<Rightarrow> Inr (AList.update ''_meta'' mt m)
    | JList _ \<Rightarrow> Inl (TypeError a)
    | _ \<Rightarrow> Inl (TypeError (c merged))) \<noteq> Inl (ValueError msg)"
  by (cases merged) auto

lemma merge_step_error:
  "and_then (json_item pr ''DEFAULT'') (\<lambda>default_plan.
   and_then (json_item pr i) (\<lambda>intent_plan.
   and_then (deep_merge_call default_plan intent_plan) (\<lambda>merged.
     case merged of
       JDict m \<Rightarrow> Inr (AList.update ''_meta'' mt m)
     | JList _ \<Rightarrow> Inl (TypeError a)
     | _ \<Rightarrow> Inl (TypeError (c merged))))) \<noteq> Inl (ValueError msg)"
proof (cases "json_item pr ''DEFAULT''")
  case (Inl e)
  then show ?thesis by (auto dest: json_item_error)
next
  case d: (Inr d)
  show ?thesis
  proof (cases "json_item pr i")
    case (Inl e)
    with d show ?thesis by (auto dest: json_item_error)
  next
    case ov: (Inr ov)
    show ?thesis
    proof (cases "deep_merge_call d ov")
      case (Inl e)
      with d ov show ?thesis by (auto dest: deep_merge_call_error)
    next
      case (Inr merged)
      with d ov show ?thesis by (simp add: set_meta_error)
    qed
  qed
qed

lemma ascii_upper_x: "ascii_upper ''x'' = ''X''" "ascii_upper ''X'' = ''X''"
  by (simp_all add: ascii_upper_def ascii_upper_char_def)

text \<open>
  C1, as amended. When the loaded rules are a dictionary with the upper-cased platform
  as a key, that platform's rules are a dictionary with the intent and \<^verbatim>\<open>DEFAULT\<close>
  as keys, and these two entries are dictionaries, \<^const>\<open>build_generation_plan\<close>
  returns the deep merge of the \<^verbatim>\<open>DEFAULT\<close> entry with the intent's entry, with
  \<^verbatim>\<open>_meta\<close> set to the upper-cased platform and the intent. At every key the merged
  plan holds what the claim says: the intent's value where it has one (two
  dictionaries merged recursively), the default's value otherwise. The intent's entry
  \<open>ov\<close> is a Python dictionary, so its keys are distinct.
\<close>

theorem build_generation_plan_deep_merge:
  assumes "load_platform_rules env = Inr (JDict rules)"
    and "map_of rules (str_upper env p) = Some (JDict prules)"
    and "map_of prules i = Some (JDict ov)"
    and "map_of prules ''DEFAULT'' = Some (JDict d)"
    and "distinct (map fst ov)"
  shows "\<exists>plan. build_generation_plan env p i = Inr plan \<and>
           plan = AList.update ''_meta'' (meta (str_upper env p) i) (deep_merge d ov) \<and>
           map_of plan ''_meta'' =
             Some (JDict [(''platform'', JStr (str_upper env p)), (''intent'', JStr i)]) \<and>
           (\<forall>k. k \<noteq> ''_meta'' \<longrightarrow>
                map_of plan k = spec_merged_value (map_of d k) (map_of ov k))"
proof -
  let ?plan = "AList.update ''_meta'' (meta (str_upper env p) i) (deep_merge d ov)"
  from assms(2) have "str_upper env p \<in> fst ` set rules" by (rule map_of_Some_key)
  moreover from assms(3) have "i \<in> fst ` set prules" by (rule map_of_Some_key)
  ultimately have "build_generation_plan env p i = Inr ?plan"
    using assms(1-4)
    by (simp add: build_generation_plan_def py_in_def json_item_def dict_item_def
        deep_merge_call_def Let_def)
  moreover have "map_of ?plan ''_meta'' =
      Some (JDict [(''platform'', JStr (str_upper env p)), (''intent'', JStr i)])"
    by (simp add: AList.update_conv' meta_def)
  moreover have "\<forall>k. k \<noteq> ''_meta'' \<longrightarrow>
      map_of ?plan k = spec_merged_value (map_of d k) (map_of ov k)"
    using assms(5) by (simp add: AList.update_conv' map_of_deep_merge)
  ultimately show ?thesis by blast
qed

theorem build_generation_plan_deep_merge_witness:
  "load_platform_rules (env_with promo_rules) = Inr promo_rules \<and>
   str_upper (env_with promo_rules) ''x'' = ''X'' \<and>
   json_item promo_rules ''X'' =
     Inr (JDict [(''DEFAULT'', JDict
            [(''objective'', JStr ''engagement''),
             (''text_constraints'', JDict [(''max_chars'', JInt 280), (''allow_hashtags'', JBool True)])]),
           (''PROMO'', JDict
            [(''objective'', JStr ''conversion''),
             (''text_constraints'', JDict [(''max_chars'', JInt 100)])])]) \<and>
   build_generation_plan (env_with promo_rules) ''x'' ''PROMO'' =
     Inr [(''objective'', JStr ''conversion''),
          (''text_constraints'', JDict [(''max_chars'', JInt 100), (''allow_hashtags'', JBool True)]),
          (''_meta'', JDict [(''platform'', JStr ''X''), (''intent'', JStr ''PROMO'')])]"
proof -
  let ?d = "[(''objective'', JStr ''engagement''),
             (''text_constraints'', JDict [(''max_chars'', JInt 280), (''allow_hashtags'', JBool True)])]"
  let ?ov = "[(''objective'', JStr ''conversion''),
              (''text_constraints'', JDict [(''max_chars'', JInt 100)])]"
  let ?prules = "[(''DEFAULT'', JDict ?d), (''PROMO'', JDict ?ov)]"
  let ?env = "env_with promo_rules"
  have up: "str_upper ?env ''x'' = ''X''"
    by (simp add: env_with_def ascii_upper_x)
  have 0: "load_platform_rules ?env = Inr (JDict [(''X'', JDict ?prules)])"
    by (simp add: env_with_def promo_rules_def)
  have 1: "map_of [(''X'', JDict ?prules)] (str_upper ?env ''x'') = Some (JDict ?prules)"
    by (simp add: up)
  have 2: "map_of ?prules ''PROMO'' = Some (JDict ?ov)" by simp
  have 3: "map_of ?prules ''DEFAULT'' = Some (JDict ?d)" by simp
  have 4: "distinct (map fst ?ov)" by simp
  from build_generation_plan_deep_merge [OF 0 1 2 3 4]
  have "build_generation_plan ?env ''x'' ''PROMO'' =
          Inr (AList.update ''_meta'' (meta (str_upper ?env ''x'') ''PROMO'') (deep_merge ?d ?ov))"
    by blast
  then have "build_generation_plan ?env ''x'' ''PROMO'' =
     Inr [(''objective'', JStr ''conversion''),
          (''text_constraints'', JDict [(''max_chars'', JInt 100), (''allow_hashtags'', JBool True)]),
          (''_meta'', JDict [(''platform'', JStr ''X''), (''intent'', JStr ''PROMO'')])]"
    by (simp add: up meta_def)
  moreover have "json_item promo_rules ''X'' = Inr (JDict ?prules)"
    by (simp add: promo_rules_def json_item_def dict_item_def)
  moreover have "load_platform_rules ?env = Inr promo_rules"
    by (simp add: env_with_def)
  ultimately show ?thesis using up by blast
qed

text \<open>
  C1 as stated fails. In the first configuration the platform \<^verbatim>\<open>X\<close> and the intent
  \<^verbatim>\<open>PROMO\<close> are keys of the rules, yet no plan is returned, because
  \<^verbatim>\<open>rules[platform]["DEFAULT"]\<close> raises \<^verbatim>\<open>KeyError\<close>. In the second one
  \<^verbatim>\<open>DEFAULT\<close> is a key as well, the intent's entry is \<^verbatim>\<open>null\<close>, and
  \<^verbatim>\<open>override.items()\<close> raises \<^verbatim>\<open>AttributeError\<close>.
\<close>

theorem build_generation_plan_without_default:
  "py_in (str_upper (env_with rules_without_default) ''x'') rules_without_default = Inr True \<and>
   json_item rules_without_default ''X'' =
     Inr (JDict [(''PROMO'', JDict [(''objective'', JStr ''conversion'')])]) \<and>
   py_in ''PROMO'' (JDict [(''PROMO'', JDict [(''objective'', JStr ''conversion'')])]) = Inr True \<and>
   build_generation_plan (env_with rules_without_default) ''x'' ''PROMO''
     = Inl (KeyError ''DEFAULT'') \<and>
   py_in (str_upper (env_with rules_null_intent) ''x'') rules_null_intent = Inr True \<and>
   json_item rules_null_intent ''X'' =
     Inr (JDict [(''DEFAULT'', JDict [(''tone'', JStr ''bold'')]), (''PROMO'', JNull)]) \<and>
   py_in ''PROMO'' (JDict [(''DEFAULT'', JDict [(''tone'', JStr ''bold'')]), (''PROMO'', JNull)])
     = Inr True \<and>
   build_generation_plan (env_with rules_null_intent) ''x'' ''PROMO''
     = Inl (AttributeError ''NoneType'' ''items'')"
  by (simp add: build_generation_plan_def rules_without_default_def rules_null_intent_def
      env_with_def ascii_upper_x py_in_def json_item_def dict_item_def deep_merge_call_def)

text \<open>
  C10. With the rules loaded, \<^const>\<open>build_generation_plan\<close> raises \<^verbatim>\<open>ValueError\<close>
  exactly when \<^verbatim>\<open>platform.upper() not in rules\<close> holds, or
  \<^verbatim>\<open>intent not in rules[platform.upper()]\<close> does (for a dictionary, \<^const>\<open>py_in\<close>
  is the membership of the key). Two platform strings with the same upper-case form
  get the same result; the intent is looked up as it is. A call that raises returns
  no plan.
\<close>

theorem build_generation_plan_value_error:
  assumes "load_platform_rules env = Inr rules"
  shows
  "((\<exists>msg. build_generation_plan env p i = Inl (ValueError msg)) \<longleftrightarrow>
      (py_in (str_upper env p) rules = Inr False \<or>
       (\<exists>prules. py_in (str_upper env p) rules = Inr True \<and>
                 json_item rules (str_upper env p) = Inr prules \<and>
                 py_in i prules = Inr False))) \<and>
   (str_upper env p = str_upper env q \<longrightarrow>
      build_generation_plan env p i = build_generation_plan env q i) \<and>
   ((\<exists>e. build_generation_plan env p i = Inl e) \<longrightarrow>
      (\<forall>plan. build_generation_plan env p i \<noteq> Inr plan))"
proof -
  let ?P = "str_upper env p"
  have "(\<exists>msg. build_generation_plan env p i = Inl (ValueError msg)) \<longleftrightarrow>
      (py_in ?P rules = Inr False \<or>
       (\<exists>prules. py_in ?P rules = Inr True \<and> json_item rules ?P = Inr prules \<and>
                 py_in i prules = Inr False))"
  proof (cases "py_in ?P rules")
    case (Inl e)
    with assms have "build_generation_plan env p i = Inl e"
      by (simp add: build_generation_plan_def Let_def)
    with Inl show ?thesis by (auto dest: py_in_error)
  next
    case (Inr found)
    show ?thesis
    proof (cases found)
      case False
      with assms Inr show ?thesis
        by (simp add: build_generation_plan_def Let_def)
    next
      case True
      show ?thesis
      proof (cases "json_item rules ?P")
        case (Inl e)
        with assms Inr True have "build_generation_plan env p i = Inl e"
          by (simp add: build_generation_plan_def Let_def)
        with Inl Inr True show ?thesis by (auto dest: json_item_error)
      next
        case pr: (Inr prules)
        show ?thesis
        proof (cases "py_in i prules")
          case (Inl e)
          with assms Inr True pr have "build_generation_plan env p i = Inl e"
            by (simp add: build_generation_plan_def Let_def)
          with Inl Inr True pr show ?thesis by (auto dest: py_in_error)
        next
          case has: (Inr has_intent)
          show ?thesis
          proof (cases has_intent)
            case False
            with assms Inr True pr has show ?thesis
              by (simp add: build_generation_plan_def Let_def)
          next
            case yes: True
            with assms Inr True pr has show ?thesis
              by (simp add: build_generation_plan_def Let_def merge_step_error)
          qed
        qed
      qed
    qed
  qed
  moreover have "str_upper env p = str_upper env q \<longrightarrow>
      build_generation_plan env p i = build_generation_plan env q i"
    by (simp add: build_generation_plan_def Let_def)
  ultimately show ?thesis by auto
qed

theorem build_generation_plan_value_error_witness:
  "load_platform_rules demo_env = Inr dummy_rules \<and>
   build_generation_plan demo_env ''x'' ''default''
     = Inl (ValueError ''Intent default not found for platform X'') \<and>
   py_in (str_upper demo_env ''x'') dummy_rules = Inr True \<and>
   (\<exists>prules. json_item dummy_rules (str_upper demo_env ''x'') = Inr prules \<and>
             py_in ''default'' prules = Inr False) \<and>
   str_upper demo_env ''x'' = str_upper demo_env ''X'' \<and>
   build_generation_plan demo_env ''x'' ''default''
     = build_generation_plan demo_env ''X'' ''default''"
proof -
  have up: "str_upper demo_env ''x'' = ''X''" "str_upper demo_env ''X'' = ''X''"
    by (simp_all add: demo_env_def env_with_def ascii_upper_x)
  have load: "load_platform_rules demo_env = Inr dummy_rules"
    by (simp add: demo_env_def env_with_def)
  have raised: "build_generation_plan demo_env ''x'' ''default''
      = Inl (ValueError ''Intent default not found for platform X'')"
    by (simp add: build_generation_plan_def load up dummy_rules_def py_in_def json_item_def
        dict_item_def)
  have isin: "py_in (str_upper demo_env ''x'') dummy_rules = Inr True"
    by (simp add: up dummy_rules_def py_in_def)
  from build_generation_plan_value_error [OF load, of "''x''" "''default''" "''X''"] raised up isin
  have "(\<exists>prules. json_item dummy_rules (str_upper demo_env ''x'') = Inr prules \<and>
             py_in ''default'' prules = Inr False)"
    and "build_generation_plan demo_env ''x'' ''default''
           = build_generation_plan demo_env ''X'' ''default''"
    by auto
  with raised up isin load show ?thesis
    by simp
qed


section \<open>Properties of the normalisation\<close>

lemma allowed_types_cases:
  "(allowed_types t = [JStr ''image'', JStr ''video''] \<and>
    (t = JStr ''optional'' \<or> t = JStr ''image_or_short_video'')) \<or>
   (allowed_types t = [t] \<and>
    (t = JStr ''image'' \<or> t = JStr ''video'' \<or> t = JStr ''photo_carousel'' \<or> t = JStr ''text_only'')) \<or>
   allowed_types t = []"
  by (simp add: allowed_types_def)

lemma allowed_types_truthy: "x \<in> set (allowed_types t) \<Longrightarrow> truthy x"
  using allowed_types_cases [of t] by auto

lemma selected_type_member:
  "selected_type t (allowed_types t) c =
     (if opt_str c \<in> set (allowed_types t) then opt_str c
      else if allowed_types t = [] then JNull
      else if t \<in> set (allowed_types t) then t else hd (allowed_types t))"
  using allowed_types_truthy [of "opt_str c" t]
  by (simp add: selected_type_def Let_def py_not_def)

lemma selected_type_fal_eq:
  "selected_type t (allowed_types t) c = selected_type_fal (allowed_types t) c"
  unfolding selected_type_member selected_type_fal_def
  using allowed_types_cases [of t] by auto

lemma allowed_types_fal_eq: "t \<noteq> JStr ''image'' \<Longrightarrow> allowed_types_fal t = allowed_types t"
  by (auto simp: allowed_types_def allowed_types_fal_def)

lemma selected_ok:
  "(allowed_types t = [] \<longrightarrow> selected_type t (allowed_types t) c = JNull) \<and>
   (allowed_types t \<noteq> [] \<longrightarrow> selected_type t (allowed_types t) c \<in> set (allowed_types t)) \<and>
   (opt_str c \<in> set (allowed_types t) \<longrightarrow> selected_type t (allowed_types t) c = opt_str c)"
  unfolding selected_type_member by auto

lemma selected_fal_ok:
  "(allowed = [] \<longrightarrow> selected_type_fal allowed c = JNull) \<and>
   (allowed \<noteq> [] \<longrightarrow> selected_type_fal allowed c \<in> set allowed) \<and>
   (opt_str c \<in> set allowed \<longrightarrow> selected_type_fal allowed c = opt_str c)"
  by (auto simp: selected_type_fal_def)


lemma normalize_plan_agree:
  assumes "\<forall>m. dict_get raw ''media_constraints'' (JDict []) = JDict m \<longrightarrow>
               dict_get m ''type'' JNull \<noteq> JStr ''image''"
  shows "normalize_plan raw c = normalize_plan_fal raw c"
proof (cases "dict_get raw ''media_constraints'' (JDict [])")
  case (JDict m)
  with assms have "allowed_types_fal (dict_get m ''type'' JNull) = allowed_types (dict_get m ''type'' JNull)"
    by (simp add: allowed_types_fal_eq)
  with JDict show ?thesis
    by (simp add: normalize_plan_def normalize_plan_fal_def Let_def selected_type_fal_eq)
qed (simp_all add: normalize_plan_def normalize_plan_fal_def)

lemma normalize_plan_Inr:
  assumes "normalize_plan raw c = Inr plan"
  shows "\<exists>m. plan = normalized raw m (allowed_types (dict_get m ''type'' JNull))
        (selected_type (dict_get m ''type'' JNull) (allowed_types (dict_get m ''type'' JNull)) c)"
  using assms
  by (cases "dict_get raw ''media_constraints'' (JDict [])")
     (auto simp add: normalize_plan_def Let_def)

lemma normalize_plan_fal_Inr:
  assumes "normalize_plan_fal raw c = Inr plan"
  shows "\<exists>m. plan = normalized raw m (allowed_types_fal (dict_get m ''type'' JNull))
        (selected_type_fal (allowed_types_fal (dict_get m ''type'' JNull)) c)"
  using assms
  by (cases "dict_get raw ''media_constraints'' (JDict [])")
     (auto simp add: normalize_plan_fal_def Let_def)

lemma normalized_media:
  "\<exists>mc. map_of (normalized raw m allowed sel) ''media_constraints'' = Some (JDict mc) \<and>
        map_of mc ''allowed_types'' = Some (JList allowed) \<and>
        map_of mc ''selected_type'' = Some sel"
  by (simp add: normalized_def)


text \<open>
  C3. In the plan either \<^verbatim>\<open>normalize_plan\<close> returns (that of
  \<^verbatim>\<open>content_orchestration.py\<close> and that of \<^verbatim>\<open>content_orchestrationfal.py\<close>),
  \<^verbatim>\<open>media_constraints.selected_type\<close> is \<^verbatim>\<open>None\<close> when
  \<^verbatim>\<open>media_constraints.allowed_types\<close> is empty and a member of it otherwise, and it is
  \<^verbatim>\<open>user_media_choice\<close> whenever that is a member of \<^verbatim>\<open>allowed_types\<close>.
\<close>

theorem normalize_plan_selected_type:
  assumes "normalize_plan raw c = Inr plan \<or> normalize_plan_fal raw c = Inr plan"
  shows "\<exists>mc allowed sel.
           map_of plan ''media_constraints'' = Some (JDict mc) \<and>
           map_of mc ''allowed_types'' = Some (JList allowed) \<and>
           map_of mc ''selected_type'' = Some sel \<and>
           (allowed = [] \<longrightarrow> sel = JNull) \<and>
           (allowed \<noteq> [] \<longrightarrow> sel \<in> set allowed) \<and>
           (opt_str c \<in> set allowed \<longrightarrow> sel = opt_str c)"
proof -
  from assms obtain m allowed sel where plan: "plan = normalized raw m allowed sel"
    and ok: "(allowed = [] \<longrightarrow> sel = JNull) \<and> (allowed \<noteq> [] \<longrightarrow> sel \<in> set allowed) \<and>
             (opt_str c \<in> set allowed \<longrightarrow> sel = opt_str c)"
  proof
    assume "normalize_plan raw c = Inr plan"
    then obtain m where "plan = normalized raw m (allowed_types (dict_get m ''type'' JNull))
        (selected_type (dict_get m ''type'' JNull) (allowed_types (dict_get m ''type'' JNull)) c)"
      using normalize_plan_Inr by blast
    then show thesis
      by (rule that) (rule selected_ok)
  next
    assume "normalize_plan_fal raw c = Inr plan"
    then obtain m where "plan = normalized raw m (allowed_types_fal (dict_get m ''type'' JNull))
        (selected_type_fal (allowed_types_fal (dict_get m ''type'' JNull)) c)"
      using normalize_plan_fal_Inr by blast
    then show thesis
      by (rule that) (rule selected_fal_ok)
  qed
  from normalized_media [of raw m allowed sel] obtain mc
    where "map_of plan ''media_constraints'' = Some (JDict mc)"
      and "map_of mc ''allowed_types'' = Some (JList allowed)"
      and "map_of mc ''selected_type'' = Some sel"
    unfolding plan by blast
  with ok show ?thesis by blast
qed

theorem normalize_plan_selected_type_witness:
  "(\<exists>plan mc. normalize_plan x_default_plan (Some ''video'') = Inr plan \<and>
      map_of plan ''media_constraints'' = Some (JDict mc) \<and>
      map_of mc ''allowed_types'' = Some (JList [JStr ''image'', JStr ''video'']) \<and>
      map_of mc ''selected_type'' = Some (JStr ''video'')) \<and>
   opt_str (Some ''video'') \<in> set [JStr ''image'', JStr ''video'']"
proof -
  let ?plan = "normalized x_default_plan [(''type'', JStr ''optional'')]
      [JStr ''image'', JStr ''video''] (JStr ''video'')"
  have run: "normalize_plan x_default_plan (Some ''video'') = Inr ?plan"
    by (simp add: normalize_plan_def x_default_plan_def dict_get_def Let_def
        allowed_types_def selected_type_def opt_str_def py_not_def)
  from normalize_plan_selected_type [OF disjI1 [OF run]] obtain mc allowed sel
    where mc: "map_of ?plan ''media_constraints'' = Some (JDict mc)"
      and al: "map_of mc ''allowed_types'' = Some (JList allowed)"
      and se: "map_of mc ''selected_type'' = Some sel"
      and ch: "opt_str (Some ''video'') \<in> set allowed \<longrightarrow> sel = opt_str (Some ''video'')"
    by blast
  from mc al have "allowed = [JStr ''image'', JStr ''video'']"
    by (auto simp: normalized_def)
  with ch have "sel = JStr ''video''"
    by (simp add: opt_str_def)
  with run mc al se \<open>allowed = [JStr ''image'', JStr ''video'']\<close> show ?thesis
    by (auto simp: opt_str_def)
qed

text \<open>
  C2. The two \<^verbatim>\<open>normalize_plan\<close> functions differ on a raw plan whose media type is
  \<^verbatim>\<open>image\<close>: \<^verbatim>\<open>content_orchestration.py\<close> allows and selects \<^verbatim>\<open>image\<close>, while the
  list in \<^verbatim>\<open>content_orchestrationfal.py\<close> leaves \<^verbatim>\<open>image\<close> out, so nothing is allowed and
  nothing is selected. (\<open>normalize_plan_agree\<close> above: on every other raw plan the two
  functions return the same result, the same exception included.)
\<close>

theorem normalize_plan_image_differs:
  "normalize_plan image_plan None =
     Inr (normalized image_plan [(''type'', JStr ''image'')] [JStr ''image''] (JStr ''image'')) \<and>
   normalize_plan_fal image_plan None =
     Inr (normalized image_plan [(''type'', JStr ''image'')] [] JNull) \<and>
   normalize_plan image_plan None \<noteq> normalize_plan_fal image_plan None"
  by (simp add: normalize_plan_def normalize_plan_fal_def image_plan_def dict_get_def
      allowed_types_def allowed_types_fal_def selected_type_def selected_type_fal_def
      opt_str_def py_not_def normalized_def Let_def)

section \<open>Properties of the media prompt\<close>

lemma render_media_template_not_None: "render_media_template env plan t \<noteq> Inr None"
  by (auto simp: render_media_template_def and_then_def split: sum.splits)

lemma build_media_prompt_None_iff:
  assumes "map_of plan ''media_constraints'' = Some (JDict mc)"
  shows "build_media_prompt env plan = Inr None \<longleftrightarrow>
           (py_not (dict_get mc ''selected_type'' JNull) \<or>
            dict_get mc ''selected_type'' JNull = JStr ''text_only'')"
    and "\<not> (py_not (dict_get mc ''selected_type'' JNull) \<or>
            dict_get mc ''selected_type'' JNull = JStr ''text_only'') \<Longrightarrow>
         build_media_prompt env plan =
           render_media_template env plan (dict_get mc ''selected_type'' JNull)"
  using assms render_media_template_not_None
  by (simp_all add: build_media_prompt_def dict_item_def json_get_def)

lemma build_media_prompt_fal_None_iff:
  assumes "map_of plan ''media_constraints'' = Some (JDict mc)"
    and "map_of mc ''selected_type'' = Some t"
  shows "build_media_prompt_fal env plan = Inr None \<longleftrightarrow> (py_not t \<or> t = JStr ''text_only'')"
    and "\<not> (py_not t \<or> t = JStr ''text_only'') \<Longrightarrow>
         build_media_prompt_fal env plan = render_media_template env plan t"
  using assms render_media_template_not_None
  by (simp_all add: build_media_prompt_fal_def dict_item_def json_item_def)

lemma build_media_prompt_test1_None_iff:
  assumes "map_of plan ''media_constraints'' = Some (JDict mc)"
    and "map_of mc ''selected_type'' = Some t"
  shows "build_media_prompt_test1 env plan = Inr None \<longleftrightarrow> py_not t"
    and "\<not> py_not t \<Longrightarrow>
         build_media_prompt_test1 env plan = render_media_template env plan t"
  using assms render_media_template_not_None
  by (simp_all add: build_media_prompt_test1_def dict_item_def json_item_def)

text \<open>
  C8. On a normalized plan whose selected type is \<^verbatim>\<open>text_only\<close>, the
  \<^verbatim>\<open>build_media_prompt\<close> of \<^verbatim>\<open>test(1).py\<close> renders and returns the media prompt,
  where the claim says \<^verbatim>\<open>None\<close>; those of \<^verbatim>\<open>content_orchestration.py\<close> and
  \<^verbatim>\<open>content_orchestrationfal.py\<close> return \<^verbatim>\<open>None\<close> there. (The three lemmas above
  state when each variant returns \<^verbatim>\<open>None\<close> and that it returns the rendered
  template otherwise.)
\<close>

theorem build_media_prompt_test1_text_only:
  "build_media_prompt_test1 demo_env text_only_plan = Inr (Some ''media prompt'') \<and>
   build_media_prompt demo_env text_only_plan = Inr None \<and>
   build_media_prompt_fal demo_env text_only_plan = Inr None"
  by (simp add: build_media_prompt_test1_def build_media_prompt_def build_media_prompt_fal_def
      render_media_template_def text_only_plan_def normalized_def demo_env_def env_with_def
      dict_item_def json_item_def json_get_def dict_get_def py_not_def)

section \<open>Properties of the orchestration\<close>

lemma normalized_media_constraints:
  "dict_get (normalized raw m allowed sel) ''media_constraints'' (JDict []) =
      JDict [(''allowed_types'', JList allowed),
         (''selected_type'', sel),
         (''raw'', JDict m),
         (''image'', dict_get m ''image'' (JDict [])),
         (''video'', dict_get m ''video'' (JDict [])),
         (''image_count'', dict_get m ''image_count'' JNull),
         (''aspect_ratio'', dict_get m ''aspect_ratio'' JNull),
         (''safe_zone_required'', dict_get m ''safe_zone_required'' (JBool False)),
         (''ugc_style'', dict_get m ''ugc_style'' (JBool False)),
         (''supports_audio'', dict_get m ''supports_audio'' (JBool False)),
         (''recommended_use_cases'', dict_get m ''recommended_use_cases'' (JList []))]"
  by (simp add: normalized_def dict_get_def)

lemma normalized_final_input:
  assumes "build_text_prompt env (normalized raw m allowed sel) = Inr tp"
    and "build_media_prompt env (normalized raw m allowed sel) = Inr mp"
  shows "\<exists>payload. build_final_model_input env (normalized raw m allowed sel) ui uf =
           Inr \<lparr>fi_text_model_input = tp @ [CHR 0x0A, CHR 0x0A] @ build_text_user_data_block env ui,
                fi_media_payload = payload, fi_generation_plan = normalized raw m allowed sel\<rparr> \<and>
           map_of payload ''media_type'' = Some sel"
  unfolding build_final_model_input_def assms and_then_simps Let_def
    normalized_media_constraints
  by (simp add: dict_get_def)

lemma normalized_selected:
  "map_of (normalized raw m allowed sel) ''media_constraints'' = Some (JDict mc) \<Longrightarrow>
   dict_get mc ''selected_type'' JNull = sel"
  by (auto simp: normalized_def dict_get_def)

lemma text_only_raw:
  "build_generation_plan (env_with text_only_rules) ''x'' ''DEFAULT'' =
     Inr [(''content_type'', JStr ''post''),
          (''objective'', JStr ''engagement''),
          (''tone'', JStr ''professional''),
          (''text_constraints'', JDict [(''max_chars'', JInt 280)]),
          (''media_constraints'', JDict [(''type'', JStr ''text_only'')]),
          (''_meta'', JDict [(''platform'', JStr ''X''), (''intent'', JStr ''DEFAULT'')])]"
  by (simp add: build_generation_plan_def text_only_rules_def env_with_def ascii_upper_x
      py_in_def json_item_def dict_item_def deep_merge_call_def meta_def)

text \<open>
  C7, as amended. Whenever \<^const>\<open>build_generation_plan\<close> and \<^const>\<open>normalize_plan\<close>
  return and the two prompt templates render,
  \<^const>\<open>orchestrate_content_generation\<close> returns a dictionary with the two keys
  \<^verbatim>\<open>text\<close> and \<^verbatim>\<open>media\<close>, in which \<^verbatim>\<open>text\<close> is the answer of the text service to
  the text model input (the text prompt, an empty line, the user data block), and
  \<^verbatim>\<open>media\<close> is \<^verbatim>\<open>None\<close> whenever the selected type of the normalized plan is
  \<^verbatim>\<open>None\<close> or \<^verbatim>\<open>text_only\<close>.
\<close>

theorem orchestrate_returns_text_and_media:
  assumes "build_generation_plan env p i = Inr raw"
    and "normalize_plan raw c = Inr plan"
    and "build_text_prompt env plan = Inr text_prompt"
    and "build_media_prompt env plan = Inr media_prompt"
  shows "\<exists>media.
           orchestrate_content_generation env p i inputs files c =
             Inr [(''text'', JStr (gemini env (text_prompt @ [CHR 0x0A, CHR 0x0A] @
                                      build_text_user_data_block env inputs))),
                  (''media'', media)] \<and>
           (\<forall>mc. map_of plan ''media_constraints'' = Some (JDict mc) \<and>
                 (dict_get mc ''selected_type'' JNull = JNull \<or>
                  dict_get mc ''selected_type'' JNull = JStr ''text_only'')
                 \<longrightarrow> media = JNull)"
proof -
  from assms(2) obtain m allowed sel where plan: "plan = normalized raw m allowed sel"
    using normalize_plan_Inr by blast
  from assms(3,4) obtain payload where
    final: "build_final_model_input env plan inputs files =
           Inr \<lparr>fi_text_model_input = text_prompt @ [CHR 0x0A, CHR 0x0A] @
                   build_text_user_data_block env inputs,
                fi_media_payload = payload, fi_generation_plan = plan\<rparr>"
    and mt: "map_of payload ''media_type'' = Some sel"
    unfolding plan using normalized_final_input by blast
  have sel: "dict_get mc ''selected_type'' JNull = sel"
    if "map_of plan ''media_constraints'' = Some (JDict mc)" for mc
    using that unfolding plan by (rule normalized_selected)
  show ?thesis
  proof (cases "py_not sel \<or> sel = JStr ''text_only''")
    case True
    then have "orchestrate_content_generation env p i inputs files c =
             Inr [(''text'', JStr (gemini env (text_prompt @ [CHR 0x0A, CHR 0x0A] @
                                      build_text_user_data_block env inputs))),
                  (''media'', JNull)]"
      using assms(1,2) final mt
      by (simp add: orchestrate_content_generation_def Let_def dict_item_def)
    then show ?thesis by blast
  next
    case False
    then have nn: "sel \<noteq> JNull" "sel \<noteq> JStr ''text_only''"
      by (auto simp: py_not_def)
    from False have "\<exists>media. orchestrate_content_generation env p i inputs files c =
             Inr [(''text'', JStr (gemini env (text_prompt @ [CHR 0x0A, CHR 0x0A] @
                                      build_text_user_data_block env inputs))),
                  (''media'', media)]"
      using assms(1,2) final mt
      by (simp add: orchestrate_content_generation_def Let_def dict_item_def)
    with nn sel show ?thesis by blast
  qed
qed

theorem orchestrate_returns_text_and_media_witness:
  "(\<exists>raw plan text_prompt.
      build_generation_plan (env_with text_only_rules) ''x'' ''DEFAULT'' = Inr raw \<and>
      normalize_plan raw None = Inr plan \<and>
      build_text_prompt (env_with text_only_rules) plan = Inr text_prompt \<and>
      build_media_prompt (env_with text_only_rules) plan = Inr None \<and>
      dict_get plan ''media_constraints'' JNull =
        JDict [(''allowed_types'', JList [JStr ''text_only'']),
               (''selected_type'', JStr ''text_only''),
               (''raw'', JDict [(''type'', JStr ''text_only'')]),
               (''image'', JDict []), (''video'', JDict []),
               (''image_count'', JNull), (''aspect_ratio'', JNull),
               (''safe_zone_required'', JBool False), (''ugc_style'', JBool False),
               (''supports_audio'', JBool False), (''recommended_use_cases'', JList [])]) \<and>
   orchestrate_content_generation (env_with text_only_rules) ''x'' ''DEFAULT'' [] [] None =
     Inr [(''text'', JStr ''generated text''), (''media'', JNull)]"
proof -
  let ?env = "env_with text_only_rules"
  let ?raw = "[(''content_type'', JStr ''post''),
          (''objective'', JStr ''engagement''),
          (''tone'', JStr ''professional''),
          (''text_constraints'', JDict [(''max_chars'', JInt 280)]),
          (''media_constraints'', JDict [(''type'', JStr ''text_only'')]),
          (''_meta'', JDict [(''platform'', JStr ''X''), (''intent'', JStr ''DEFAULT'')])]"
  let ?mc = "[(''allowed_types'', JList [JStr ''text_only'']),
               (''selected_type'', JStr ''text_only''),
               (''raw'', JDict [(''type'', JStr ''text_only'')]),
               (''image'', JDict []), (''video'', JDict []),
               (''image_count'', JNull), (''aspect_ratio'', JNull),
               (''safe_zone_required'', JBool False), (''ugc_style'', JBool False),
               (''supports_audio'', JBool False), (''recommended_use_cases'', JList [])]"
  let ?plan = "normalized ?raw [(''type'', JStr ''text_only'')] [JStr ''text_only'']
                 (JStr ''text_only'')"
  have 1: "build_generation_plan ?env ''x'' ''DEFAULT'' = Inr ?raw"
    by (rule text_only_raw)
  have 2: "normalize_plan ?raw None = Inr ?plan"
    by (simp add: normalize_plan_def dict_get_def Let_def allowed_types_def selected_type_def
        opt_str_def py_not_def)
  have 3: "build_text_prompt ?env ?plan = Inr ''text prompt''"
    by (simp add: build_text_prompt_def normalized_def dict_item_def env_with_def)
  have 4: "build_media_prompt ?env ?plan = Inr None"
    by (simp add: build_media_prompt_def normalized_def dict_item_def json_get_def dict_get_def)
  have 5: "map_of ?plan ''media_constraints'' = Some (JDict ?mc)"
    by (simp add: normalized_def dict_get_def)
  have 6: "dict_get ?mc ''selected_type'' JNull = JStr ''text_only''"
    by (simp add: dict_get_def)
  from orchestrate_returns_text_and_media [OF 1 2 3 4, of "[]" "[]"] 5 6
  have "orchestrate_content_generation ?env ''x'' ''DEFAULT'' [] [] None =
          Inr [(''text'', JStr (gemini ?env (''text prompt'' @ [CHR 0x0A, CHR 0x0A] @
                                   build_text_user_data_block ?env []))),
               (''media'', JNull)]"
    by blast
  then have "orchestrate_content_generation ?env ''x'' ''DEFAULT'' [] [] None =
          Inr [(''text'', JStr ''generated text''), (''media'', JNull)]"
    by (simp add: env_with_def)
  moreover from 5 have "dict_get ?plan ''media_constraints'' JNull = JDict ?mc"
    by (simp add: dict_get_def)
  ultimately show ?thesis using 1 2 3 4 by blast
qed

text \<open>
  C7 as stated fails: the platform and the intent are keys of the rules, and the
  call raises. In the first configuration the platform has no \<^verbatim>\<open>DEFAULT\<close> entry;
  in the second one the plan has \<^verbatim>\<open>"media_constraints": null\<close>, on which
  \<^verbatim>\<open>normalize_plan\<close> calls \<^verbatim>\<open>get\<close>.
\<close>

theorem orchestrate_raises:
  "py_in (str_upper (env_with rules_without_default) ''x'') rules_without_default = Inr True \<and>
   json_item rules_without_default ''X'' =
     Inr (JDict [(''PROMO'', JDict [(''objective'', JStr ''conversion'')])]) \<and>
   py_in ''PROMO'' (JDict [(''PROMO'', JDict [(''objective'', JStr ''conversion'')])]) = Inr True \<and>
   orchestrate_content_generation (env_with rules_without_default) ''x'' ''PROMO'' [] [] None
     = Inl (KeyError ''DEFAULT'') \<and>
   py_in (str_upper (env_with rules_null_media) ''x'') rules_null_media = Inr True \<and>
   json_item rules_null_media ''X'' =
     Inr (JDict [(''DEFAULT'',
            JDict [(''tone'', JStr ''bold''), (''media_constraints'', JNull)])]) \<and>
   py_in ''DEFAULT'' (JDict [(''DEFAULT'',
            JDict [(''tone'', JStr ''bold''), (''media_constraints'', JNull)])]) = Inr True \<and>
   orchestrate_content_generation (env_with rules_null_media) ''x'' ''DEFAULT'' [] [] None
     = Inl (AttributeError ''NoneType'' ''get'')"
  by (simp add: orchestrate_content_generation_def build_generation_plan_def
      rules_without_default_def rules_null_media_def env_with_def ascii_upper_x
      py_in_def json_item_def dict_item_def deep_merge_call_def
      normalize_plan_def dict_get_def meta_def Let_def)

section \<open>Properties of the workflow\<close>

text \<open>
  What the five \<^verbatim>\<open>try\<close> blocks call, and that a block which returns sets
  \<^verbatim>\<open>errors\<close> to the empty list.
\<close>

lemma no_call_simps [simp]: "fst (no_call r) = r" "snd (no_call r) = []"
  by (simp_all add: no_call_def)

lemma io_then_simps [simp]:
  "io_then (Inl e, cs) f = (Inl e, cs)"
  "io_then (Inr x, cs) f = (fst (f x), cs @ snd (f x))"
  "io_then (no_call (Inl e)) f = (Inl e, [])"
  "io_then (no_call (Inr x)) f = f x"
  by (simp_all add: io_then_def no_call_def)

lemma io_then_no_call: "io_then (no_call r) f = (case r of Inl e \<Rightarrow> (Inl e, []) | Inr x \<Rightarrow> f x)"
  by (cases r) simp_all

lemma planner_calls: "snd (planner_body env s) = []"
  by (simp add: planner_body_def)

lemma prompt_engineer_calls: "snd (prompt_engineer_body env s) = []"
  by (simp add: prompt_engineer_body_def)

lemma planner_ok: "fst (planner_body env s) = Inr u \<Longrightarrow> errors u = Some (JList [])"
  by (auto simp: planner_body_def and_then_def no_keys_def split: sum.splits)

lemma prompt_engineer_ok:
  "fst (prompt_engineer_body env s) = Inr u \<Longrightarrow> errors u = Some (JList [])"
  by (auto simp: prompt_engineer_body_def and_then_def no_keys_def split: sum.splits)

lemma copywriter_calls:
  "snd (copywriter_body env s) =
     (case text_model_input s of
        Some t \<Rightarrow> if t = [] then [] else [GeminiCall t]
      | None \<Rightarrow> [])"
  by (cases "text_model_input s")
     (simp_all add: copywriter_body_def state_get_truthy_def state_item_def
        generate_text_with_gemini_def)

lemma copywriter_ok: "fst (copywriter_body env s) = Inr u \<Longrightarrow> errors u = Some (JList [])"
  by (cases "text_model_input s")
     (auto simp: copywriter_body_def state_get_truthy_def state_item_def
        generate_text_with_gemini_def no_keys_def split: if_splits)

lemma visual_refiner_calls:
  "length (snd (visual_refiner_body env s)) \<le> 1 \<and> list_all is_gemini (snd (visual_refiner_body env s))"
proof (cases "selected_media_type s")
  case (Inl e)
  then show ?thesis by (simp add: visual_refiner_body_def)
next
  case (Inr mt)
  show ?thesis
  proof (cases "py_not mt \<or> mt = JStr ''text_only''")
    case True
    with Inr show ?thesis by (simp add: visual_refiner_body_def)
  next
    case False
    show ?thesis
    proof (cases "state_get_truthy (generated_text s)")
      case no: False
      with Inr False show ?thesis by (simp add: visual_refiner_body_def)
    next
      case True
      then obtain t where "generated_text s = Some (Some t)"
        by (auto simp: state_get_truthy_def split: option.splits)
      with Inr False True show ?thesis
        by (simp add: visual_refiner_body_def state_item_def generate_text_with_gemini_def
            is_gemini_def)
    qed
  qed
qed

lemma visual_refiner_ok:
  "fst (visual_refiner_body env s) = Inr u \<Longrightarrow> errors u = Some (JList [])"
proof (cases "selected_media_type s")
  case (Inl e)
  assume "fst (visual_refiner_body env s) = Inr u"
  with Inl show ?thesis by (simp add: visual_refiner_body_def)
next
  case (Inr mt)
  assume a: "fst (visual_refiner_body env s) = Inr u"
  show ?thesis
  proof (cases "py_not mt \<or> mt = JStr ''text_only''")
    case True
    with Inr a show ?thesis by (auto simp add: visual_refiner_body_def no_keys_def)
  next
    case False
    show ?thesis
    proof (cases "state_get_truthy (generated_text s)")
      case no: False
      with Inr False a show ?thesis by (simp add: visual_refiner_body_def)
    next
      case True
      then obtain t where "generated_text s = Some (Some t)"
        by (auto simp: state_get_truthy_def split: option.splits)
      with Inr False True a show ?thesis
        by (auto simp add: visual_refiner_body_def state_item_def generate_text_with_gemini_def
            no_keys_def)
    qed
  qed
qed


lemma ok_io_then:
  "(\<And>x. \<forall>u. fst (f x) = Inr u \<longrightarrow> errors u = Some (JList [])) \<Longrightarrow>
   \<forall>u. fst (io_then m f) = Inr u \<longrightarrow> errors u = Some (JList [])"
  by (auto simp: io_then_def split: sum.splits)

lemma fal_io_then:
  "list_all is_fal (snd m) \<Longrightarrow> (\<And>x. list_all is_fal (snd (f x))) \<Longrightarrow>
   list_all is_fal (snd (io_then m f))"
  by (auto simp: io_then_def split: sum.splits)

lemma fal_no_call [simp]: "list_all is_fal (snd (no_call r))"
  by simp

lemma generate_image_calls: "list_all is_fal (snd (generate_image_with_fal env p c r))"
  unfolding generate_image_with_fal_def
  by (intro fal_io_then fal_no_call) (simp add: Let_def is_fal_def)

lemma generate_video_calls: "list_all is_fal (snd (generate_video_with_fal env p c r))"
  unfolding generate_video_with_fal_def
  by (intro fal_io_then fal_no_call) (simp add: Let_def is_fal_def)

lemma carousel_calls: "list_all is_fal (snd (carousel env s p c indices))"
  by (induction indices) (auto intro!: fal_io_then generate_image_calls)

lemma media_producer_calls: "list_all is_fal (snd (media_producer_body env s))"
  unfolding media_producer_body_def Let_def
  by (intro fal_io_then fal_no_call)
     (auto intro!: fal_io_then generate_image_calls generate_video_calls carousel_calls)

lemma media_producer_ok:
  "\<forall>u. fst (media_producer_body env s) = Inr u \<longrightarrow> errors u = Some (JList [])"
  unfolding media_producer_body_def Let_def
  by (intro ok_io_then) (auto simp: no_keys_def intro!: ok_io_then)

lemma io_then_no_call_length:
  "(\<And>x. length (snd (f x)) \<le> n) \<Longrightarrow> length (snd (io_then (no_call r) f)) \<le> n"
  by (cases r) simp_all

lemma generate_image_once: "length (snd (generate_image_with_fal env p c r)) \<le> 1"
  unfolding generate_image_with_fal_def
  by (intro io_then_no_call_length) (simp add: Let_def)

lemma generate_video_once: "length (snd (generate_video_with_fal env p c r)) \<le> 1"
  unfolding generate_video_with_fal_def
  by (intro io_then_no_call_length) (simp add: Let_def)

lemma io_then_result_length:
  "length (snd m) \<le> n \<Longrightarrow> (\<And>x. snd (f x) = []) \<Longrightarrow> length (snd (io_then m f)) \<le> n"
  by (auto simp: io_then_def split: sum.splits)

lemma media_producer_once:
  "selected_media_type s = Inr (JStr ''photo_carousel'') \<or>
   length (snd (media_producer_body env s)) \<le> 1"
proof (cases "selected_media_type s")
  case (Inl e)
  then show ?thesis by (simp add: media_producer_body_def)
next
  case (Inr mt)
  show ?thesis
  proof (cases "mt = JStr ''photo_carousel''")
    case True
    with Inr show ?thesis by simp
  next
    case False
    have media: "length (snd (
            if mt = JStr ''image'' then
              io_then (no_call (json_get constraints ''image'' (JDict []))) (\<lambda>image.
              io_then (no_call (state_item ''uploaded_files'' (uploaded_files s))) (\<lambda>files.
              io_then (generate_image_with_fal env prompt image
                         (dict_get files ''reference_image'' JNull)) (\<lambda>url.
                no_call (Inr (JStr url)))))
            else if mt = JStr ''video'' then
              io_then (no_call (json_get constraints ''video'' (JDict []))) (\<lambda>video.
              io_then (no_call (state_item ''uploaded_files'' (uploaded_files s))) (\<lambda>files.
              io_then (generate_video_with_fal env prompt video
                         (dict_get files ''video_init_image'' JNull)) (\<lambda>url.
                no_call (Inr (JStr url)))))
            else if mt = JStr ''photo_carousel'' then
              io_then (no_call (json_get constraints ''image_count'' (JDict []))) (\<lambda>image_count.
              io_then (no_call (py_range (case image_count of
                                            JDict d \<Rightarrow> dict_get d ''min'' (JInt 1)
                                          | _ \<Rightarrow> JInt 1))) (\<lambda>indices.
              io_then (no_call (json_get constraints ''image'' (JDict []))) (\<lambda>image.
              io_then (carousel env s prompt image indices) (\<lambda>urls.
                no_call (Inr (JList urls))))))
            else no_call (Inr JNull))) \<le> 1" for constraints prompt
    proof (cases "mt = JStr ''image''")
      case True
      show ?thesis
        unfolding if_P [OF True]
        by (intro io_then_no_call_length io_then_result_length generate_image_once no_call_simps)
    next
      case ni: False
      show ?thesis
      proof (cases "mt = JStr ''video''")
        case True
        show ?thesis
          unfolding if_not_P [OF ni] if_P [OF True]
          by (intro io_then_no_call_length io_then_result_length generate_video_once
              no_call_simps)
      next
        case nv: False
        show ?thesis
          unfolding if_not_P [OF ni] if_not_P [OF nv] if_not_P [OF False]
          by simp
      qed
    qed
    have "length (snd (media_producer_body env s)) \<le> 1"
    proof (cases "py_not mt \<or> mt = JStr ''text_only''")
      case True
      with Inr show ?thesis by (simp add: media_producer_body_def)
    next
      case go: False
      show ?thesis
      proof (cases "state_get_truthy (visual_prompt s)")
        case no: False
        with Inr go show ?thesis by (simp add: media_producer_body_def)
      next
        case True
        then have nn: "\<not> \<not> state_get_truthy (visual_prompt s)" by simp
        show ?thesis
          unfolding media_producer_body_def Let_def Inr io_then_simps
            if_not_P [OF go] if_not_P [OF nn]
          by (intro io_then_no_call_length io_then_result_length media no_call_simps)
      qed
    qed
    then show ?thesis by simp
  qed
qed

text \<open>
  A node called on a state with a list under \<^verbatim>\<open>errors\<close> returns an update, and the
  next state has a list there again; so a run on such an input goes through the five
  nodes.
\<close>

lemma guarded_calls [simp]: "snd (guarded name body env s) = snd (body env s)"
  by (simp add: guarded_def split: sum.splits)

lemma overwrite_simps [simp]: "overwrite old None = old" "overwrite old (Some v) = Some v"
  by (simp_all add: overwrite_def)

lemma apply_update_failed:
  "apply_update s (no_keys\<lparr>errors := Some es, status := Some st\<rparr>) =
     s\<lparr>errors := Some es, status := Some st\<rparr>"
  by (simp add: apply_update_def no_keys_def)

lemma guarded_list:
  assumes "errors s = Some (JList es)"
    and "\<forall>u. fst (body env s) = Inr u \<longrightarrow> errors u = Some (JList [])"
  shows "\<exists>u es'. fst (guarded name body env s) = Inr u \<and>
           errors (apply_update s u) = Some (JList es')"
proof (cases "fst (body env s)")
  case (Inl e)
  with assms(1) show ?thesis
    by (simp add: guarded_def failure_def Let_def apply_update_failed)
next
  case (Inr u)
  with assms(2) have "errors u = Some (JList [])" by simp
  with Inr show ?thesis
    by (simp add: guarded_def apply_update_def)
qed

lemma node_list:
  assumes "errors s = Some (JList es)"
  shows "\<exists>u es'. fst (planner_node env s) = Inr u \<and> errors (apply_update s u) = Some (JList es')"
    and "\<exists>u es'. fst (prompt_engineer_node env s) = Inr u \<and>
           errors (apply_update s u) = Some (JList es')"
    and "\<exists>u es'. fst (copywriter_node env s) = Inr u \<and>
           errors (apply_update s u) = Some (JList es')"
    and "\<exists>u es'. fst (visual_refiner_node env s) = Inr u \<and>
           errors (apply_update s u) = Some (JList es')"
    and "\<exists>u es'. fst (media_producer_node env s) = Inr u \<and>
           errors (apply_update s u) = Some (JList es')"
proof -
  show "\<exists>u es'. fst (planner_node env s) = Inr u \<and>
          errors (apply_update s u) = Some (JList es')"
    unfolding planner_node_def
    by (rule guarded_list [OF assms]) (simp add: planner_ok)
  show "\<exists>u es'. fst (prompt_engineer_node env s) = Inr u \<and>
          errors (apply_update s u) = Some (JList es')"
    unfolding prompt_engineer_node_def
    by (rule guarded_list [OF assms]) (simp add: prompt_engineer_ok)
  show "\<exists>u es'. fst (copywriter_node env s) = Inr u \<and>
          errors (apply_update s u) = Some (JList es')"
    unfolding copywriter_node_def
    by (rule guarded_list [OF assms]) (simp add: copywriter_ok)
  show "\<exists>u es'. fst (visual_refiner_node env s) = Inr u \<and>
          errors (apply_update s u) = Some (JList es')"
    unfolding visual_refiner_node_def
    by (rule guarded_list [OF assms]) (simp add: visual_refiner_ok)
  show "\<exists>u es'. fst (media_producer_node env s) = Inr u \<and>
          errors (apply_update s u) = Some (JList es')"
    unfolding media_producer_node_def
    by (rule guarded_list [OF assms]) (rule media_producer_ok)
qed

lemma workflow_shape:
  "nodes workflow =
     [(''planner'', planner_node), (''prompt_engineer'', prompt_engineer_node),
      (''copywriter'', copywriter_node), (''visual_refiner'', visual_refiner_node),
      (''media_producer'', media_producer_node)]"
  "entry_point workflow = Some ''planner''"
  "edges workflow =
     [(''planner'', ''prompt_engineer''), (''prompt_engineer'', ''copywriter''),
      (''copywriter'', ''visual_refiner''), (''visual_refiner'', ''media_producer''),
      (''media_producer'', END)]"
  by (simp_all add: workflow_def StateGraph_def add_node_def add_edge_def set_entry_point_def)

lemma workflow_successors:
  "successors workflow ''planner'' = [''prompt_engineer'']"
  "successors workflow ''prompt_engineer'' = [''copywriter'']"
  "successors workflow ''copywriter'' = [''visual_refiner'']"
  "successors workflow ''visual_refiner'' = [''media_producer'']"
  "successors workflow ''media_producer'' = [END]"
  by (simp_all add: successors_def workflow_shape)

lemma workflow_lookup:
  "map_of (nodes workflow) ''planner'' = Some planner_node"
  "map_of (nodes workflow) ''prompt_engineer'' = Some prompt_engineer_node"
  "map_of (nodes workflow) ''copywriter'' = Some copywriter_node"
  "map_of (nodes workflow) ''visual_refiner'' = Some visual_refiner_node"
  "map_of (nodes workflow) ''media_producer'' = Some media_producer_node"
  by (simp_all add: workflow_shape)

lemma not_END:
  "''planner'' \<noteq> END" "''prompt_engineer'' \<noteq> END" "''copywriter'' \<noteq> END"
  "''visual_refiner'' \<noteq> END" "''media_producer'' \<noteq> END"
  by (simp_all add: END_def)

lemma run_step:
  assumes "n \<noteq> END" and "map_of (nodes g) n = Some f" and "fst (f env s) = Inr u"
    and "successors g n = [t]"
  shows "run g env (Suc k) n s =
           (fst (run g env k t (apply_update s u)),
            n # fst (snd (run g env k t (apply_update s u))),
            snd (f env s) @ snd (snd (run g env k t (apply_update s u))))"
  using assms by (simp add: Let_def)

lemma run_raise:
  assumes "n \<noteq> END" and "map_of (nodes g) n = Some f" and "fst (f env s) = Inl e"
  shows "run g env (Suc k) n s = (Inl e, [n], snd (f env s))"
  using assms by simp

lemma run_END: "run g env (Suc k) END s = (Inr s, [], [])"
  by simp

lemma invoke_chain:
  assumes "errors s = Some (JList es)"
  shows "\<exists>u1 u2 u3 u4 u5.
           fst (planner_node env s) = Inr u1 \<and>
           fst (prompt_engineer_node env (apply_update s u1)) = Inr u2 \<and>
           fst (copywriter_node env (apply_update (apply_update s u1) u2)) = Inr u3 \<and>
           fst (visual_refiner_node env
                  (apply_update (apply_update (apply_update s u1) u2) u3)) = Inr u4 \<and>
           fst (media_producer_node env
                  (apply_update (apply_update (apply_update (apply_update s u1) u2) u3) u4))
             = Inr u5 \<and>
           invoke workflow env s =
             (Inr (apply_update (apply_update (apply_update (apply_update
                     (apply_update s u1) u2) u3) u4) u5),
              [''planner'', ''prompt_engineer'', ''copywriter'', ''visual_refiner'',
               ''media_producer''],
              snd (planner_node env s) @
              snd (prompt_engineer_node env (apply_update s u1)) @
              snd (copywriter_node env (apply_update (apply_update s u1) u2)) @
              snd (visual_refiner_node env
                     (apply_update (apply_update (apply_update s u1) u2) u3)) @
              snd (media_producer_node env
                     (apply_update (apply_update (apply_update (apply_update s u1) u2) u3) u4)))"
proof -
  from node_list(1) [OF assms] obtain u1 e1 where
    1: "fst (planner_node env s) = Inr u1" and
    l1: "errors (apply_update s u1) = Some (JList e1)" by blast
  let ?s1 = "apply_update s u1"
  from node_list(2) [OF l1] obtain u2 e2 where
    2: "fst (prompt_engineer_node env ?s1) = Inr u2" and
    l2: "errors (apply_update ?s1 u2) = Some (JList e2)" by blast
  let ?s2 = "apply_update ?s1 u2"
  from node_list(3) [OF l2] obtain u3 e3 where
    3: "fst (copywriter_node env ?s2) = Inr u3" and
    l3: "errors (apply_update ?s2 u3) = Some (JList e3)" by blast
  let ?s3 = "apply_update ?s2 u3"
  from node_list(4) [OF l3] obtain u4 e4 where
    4: "fst (visual_refiner_node env ?s3) = Inr u4" and
    l4: "errors (apply_update ?s3 u4) = Some (JList e4)" by blast
  let ?s4 = "apply_update ?s3 u4"
  from node_list(5) [OF l4] obtain u5 e5 where
    5: "fst (media_producer_node env ?s4) = Inr u5" and
    l5: "errors (apply_update ?s4 u5) = Some (JList e5)" by blast
  let ?s5 = "apply_update ?s4 u5"
  from assms have ne: "s \<noteq> no_keys" by (auto simp: no_keys_def)
  have fuel: "(25::nat) = Suc (Suc (Suc (Suc (Suc (Suc 19)))))" by simp
  have "invoke workflow env s = run workflow env 25 ''planner'' s"
    using ne by (simp add: invoke_def workflow_shape)
  also have "\<dots> =
      (Inr ?s5,
       [''planner'', ''prompt_engineer'', ''copywriter'', ''visual_refiner'', ''media_producer''],
       snd (planner_node env s) @ snd (prompt_engineer_node env ?s1) @
       snd (copywriter_node env ?s2) @ snd (visual_refiner_node env ?s3) @
       snd (media_producer_node env ?s4))"
    unfolding fuel
    by (simp only: run_step [OF not_END(1) workflow_lookup(1) 1 workflow_successors(1)]
        run_step [OF not_END(2) workflow_lookup(2) 2 workflow_successors(2)]
        run_step [OF not_END(3) workflow_lookup(3) 3 workflow_successors(3)]
        run_step [OF not_END(4) workflow_lookup(4) 4 workflow_successors(4)]
        run_step [OF not_END(5) workflow_lookup(5) 5 workflow_successors(5)]
        run_END fst_conv snd_conv append_Nil2)
  finally show ?thesis using 1 2 3 4 5 by blast
qed

lemma planner_null_errors:
  "fst (planner_body env state_null_errors) = Inl (KeyError ''platform'')"
  "planner_node env state_null_errors =
     (Inl (TypeError (''unsupported operand type(s) for +: '' @ quote ''NoneType'' @
                       '' and '' @ quote ''list'')), [])"
  by (simp_all add: planner_node_def guarded_def planner_body_def state_null_errors_def
      no_keys_def state_item_def failure_def)










end
